theory Spec2Isabelle
  imports Complex_Main "HOL-Library.Sublist" "HOL-Library.Multiset"
begin

section \<open>Python strings\<close>

text \<open>
  A Python \<open>str\<close> is modelled as a \<open>string\<close> whose characters are the code points
  0..255 (Latin-1). The helpers below follow the behaviour of the built-in string methods the
  source calls: \<open>str.lower\<close>, the \<open>in\<close> operator, \<open>str.replace\<close> with an empty
  replacement, and \<open>str.strip\<close>.
\<close>

definition uppercase :: string where
  "uppercase = ''ABCDEFGHIJKLMNOPQRSTUVWXYZ'' @
     [CHR 0xC0, CHR 0xC1, CHR 0xC2, CHR 0xC3, CHR 0xC4, CHR 0xC5, CHR 0xC6, CHR 0xC7,
      CHR 0xC8, CHR 0xC9, CHR 0xCA, CHR 0xCB, CHR 0xCC, CHR 0xCD, CHR 0xCE, CHR 0xCF,
      CHR 0xD0, CHR 0xD1, CHR 0xD2, CHR 0xD3, CHR 0xD4, CHR 0xD5, CHR 0xD6,
      CHR 0xD8, CHR 0xD9, CHR 0xDA, CHR 0xDB, CHR 0xDC, CHR 0xDD, CHR 0xDE]"

definition lowercase :: string where
  "lowercase = ''abcdefghijklmnopqrstuvwxyz'' @
     [CHR 0xE0, CHR 0xE1, CHR 0xE2, CHR 0xE3, CHR 0xE4, CHR 0xE5, CHR 0xE6, CHR 0xE7,
      CHR 0xE8, CHR 0xE9, CHR 0xEA, CHR 0xEB, CHR 0xEC, CHR 0xED, CHR 0xEE, CHR 0xEF,
      CHR 0xF0, CHR 0xF1, CHR 0xF2, CHR 0xF3, CHR 0xF4, CHR 0xF5, CHR 0xF6,
      CHR 0xF8, CHR 0xF9, CHR 0xFA, CHR 0xFB, CHR 0xFC, CHR 0xFD, CHR 0xFE]"

definition lower_char :: "char \<Rightarrow> char" where
  "lower_char c = (case map_of (zip uppercase lowercase) c of Some l \<Rightarrow> l | None \<Rightarrow> c)"

definition lower :: "string \<Rightarrow> string" where
  "lower s = map lower_char s"

text \<open>\<open>sub in s\<close>: \<open>sub\<close> occurs as a contiguous block of \<open>s\<close>.\<close>

fun contains :: "string \<Rightarrow> string \<Rightarrow> bool" where
  "contains sub [] = (sub = [])"
| "contains sub (c # cs) = (prefix sub (c # cs) \<or> contains sub cs)"

text \<open>\<open>s.replace(c, '')\<close> for a one-character \<open>c\<close>.\<close>

definition remove_char :: "char \<Rightarrow> string \<Rightarrow> string" where
  "remove_char c s = filter (\<lambda>x. x \<noteq> c) s"

definition whitespace :: string where
  "whitespace = [CHR 0x09, CHR 0x0A, CHR 0x0B, CHR 0x0C, CHR 0x0D, CHR 0x1C, CHR 0x1D,
                 CHR 0x1E, CHR 0x1F, CHR 0x20, CHR 0x85, CHR 0xA0]"

definition strip_chars :: "string \<Rightarrow> string \<Rightarrow> string" where
  "strip_chars cs s = rev (dropWhile (\<lambda>c. c \<in> set cs) (rev (dropWhile (\<lambda>c. c \<in> set cs) s)))"

text \<open>\<open>s.strip()\<close>: without the whitespace at both ends.\<close>

definition strip :: "string \<Rightarrow> string" where
  "strip s = strip_chars whitespace s"

definition is_digit :: "char \<Rightarrow> bool" where
  "is_digit c = (c \<in> set ''0123456789'')"

definition digit_val :: "char \<Rightarrow> nat" where
  "digit_val c =
     (case map_of (zip ''0123456789'' [0, 1, 2, 3, 4, 5, 6, 7, 8, 9]) c of
        Some d \<Rightarrow> d
      | None \<Rightarrow> 0)"

definition digits_val :: "string \<Rightarrow> nat" where
  "digits_val ds = foldl (\<lambda>a c. 10 * a + digit_val c) 0 ds"

section \<open>Exceptions\<close>

text \<open>
  The exceptions that the modelled calls raise. \<open>KeyError\<close> carries the labels that were
  not found.
\<close>

datatype error = KeyError "string list" | ValueError | TypeError | MergeError

section \<open>Program Categorizer\<close>

text \<open>
  \<open>categorize_program\<close> of \<open>data_processing.py\<close>. The argument is \<open>None\<close> when
  \<open>pd.isna(program_name)\<close> holds and \<open>Some s\<close> for a string otherwise. The result is the
  string the source returns.
\<close>

definition categorize_program :: "string option \<Rightarrow> string" where
  "categorize_program program_name =
     (case program_name of
        None \<Rightarrow> ''Unknown''
      | Some name \<Rightarrow>
          (let program_lower = lower name
           in if contains ''mental health'' program_lower
                 \<or> contains ''pediatric mental'' program_lower
              then ''Mental Health''
              else if contains ''maternal'' program_lower
                 \<or> contains ''healthy start'' program_lower
              then ''Maternal Health''
              else if contains ''home'' program_lower \<and> contains ''visit'' program_lower
              then ''Home Visiting''
              else if contains ''cshcn'' program_lower \<or> contains ''special'' program_lower
              then ''Special Healthcare Needs''
              else if contains ''training'' program_lower
                 \<or> contains ''leadership'' program_lower
                 \<or> contains ''education'' program_lower
              then ''Training & Education''
              else if contains ''emsc'' program_lower \<or> contains ''emergency'' program_lower
              then ''Emergency Services''
              else if contains ''screening'' program_lower
                 \<or> contains ''newborn'' program_lower
              then ''Screening Programs''
              else ''Other''))"

text \<open>
  The rule table as the specification words it (section 4.2, rules 2 to 8, with rule 9 as the
  default of \<open>first_match\<close>): an ordered list of predicate and label pairs, evaluated in
  sequence, the first match winning.
\<close>

definition spec_rules :: "((string \<Rightarrow> bool) \<times> string) list" where
  "spec_rules =
     [(\<lambda>p. contains ''mental health'' p \<or> contains ''pediatric mental'' p, ''Mental Health''),
      (\<lambda>p. contains ''maternal'' p \<or> contains ''healthy start'' p, ''Maternal Health''),
      (\<lambda>p. contains ''home'' p \<and> contains ''visit'' p, ''Home Visiting''),
      (\<lambda>p. contains ''cshcn'' p \<or> contains ''special'' p, ''Special Healthcare Needs''),
      (\<lambda>p. contains ''training'' p \<or> contains ''leadership'' p \<or> contains ''education'' p,
         ''Training & Education''),
      (\<lambda>p. contains ''emsc'' p \<or> contains ''emergency'' p, ''Emergency Services''),
      (\<lambda>p. contains ''screening'' p \<or> contains ''newborn'' p, ''Screening Programs'')]"

fun first_match :: "((string \<Rightarrow> bool) \<times> string) list \<Rightarrow> string \<Rightarrow> string" where
  "first_match [] p = ''Other''"
| "first_match ((f, l) # rs) p = (if f p then l else first_match rs p)"

section \<open>Floating-point rounding\<close>

text \<open>
  Python and numpy floats are binary64. \<open>binary64 x\<close> is the real \<open>x\<close> rounded to the
  nearest binary64 number, ties to the even one: the significand has 53 bits and the
  exponent is at least \<open>-1022\<close>, so that below \<open>2^-1022\<close> the numbers are the multiples
  of \<open>2^-1074\<close> (the subnormal numbers). The exponent has no upper bound here; overflow to
  an infinity is applied where a rounded result becomes a float (\<open>round_to_float\<close>
  below). The outlier detector takes the rounding \<open>fl\<close> of a result as a parameter, since
  which entries it flags can depend on the rounding: \<open>no_rounding\<close> is exact arithmetic,
  \<open>binary64\<close> is the arithmetic of the code (that a result of the detector overflows is
  left out).
\<close>

definition no_rounding :: "real \<Rightarrow> real" where
  "no_rounding x = x"

definition rne :: "real \<Rightarrow> int" where
  "rne y =
     (let f = \<lfloor>y\<rfloor>; r = y - of_int f
      in if r < 1 / 2 then f
         else if 1 / 2 < r then f + 1
         else if even f then f else f + 1)"

definition pow2 :: "int \<Rightarrow> real" where
  "pow2 e = (if 0 \<le> e then 2 ^ nat e else 1 / 2 ^ nat (- e))"

definition binary64 :: "real \<Rightarrow> real" where
  "binary64 x =
     (if x = 0 then 0
      else (let e = max \<lfloor>log 2 \<bar>x\<bar>\<rfloor> (- 1022) - 52
            in of_int (rne (x / pow2 e)) * pow2 e))"

section \<open>Currency Normalizer\<close>

text \<open>
  A Python \<open>float\<close>: a finite value, an infinity, or the not-a-number value \<open>nan\<close>, which
  is pandas' marker for a missing entry. \<open>round_to_float x\<close> is the float nearest to the
  real \<open>x\<close>: an infinity when the rounded value reaches \<open>2^1024\<close>.
\<close>

datatype pyfloat = Fin real | PInf | NInf | NaN

definition round_to_float :: "real \<Rightarrow> pyfloat" where
  "round_to_float x =
     (let y = binary64 x
      in if 2 ^ 1024 \<le> \<bar>y\<bar> then (if 0 < x then PInf else NInf) else Fin y)"

text \<open>
  The built-in \<open>float(s)\<close> on a string. It strips surrounding whitespace (its own set:
  the separators \<open>0x1C\<close> to \<open>0x1F\<close> are not in it), accepts an underscore only between
  two digits, then reads an optional sign followed by \<open>inf\<close>,
  \<open>infinity\<close> or \<open>nan\<close> in any letter case, or by a decimal number with an optional
  fraction and exponent, whose value it rounds to the nearest float. Every other string
  raises \<open>ValueError\<close>.
\<close>

fun drop_underscores :: "char \<Rightarrow> string \<Rightarrow> string option" where
  "drop_underscores prev [] = (if prev = CHR ''_'' then None else Some [])"
| "drop_underscores prev (c # cs) =
     (if c = CHR ''_''
      then (if is_digit prev then drop_underscores c cs else None)
      else if prev = CHR ''_'' \<and> \<not> is_digit c then None
      else map_option ((#) c) (drop_underscores c cs))"

definition split_sign :: "string \<Rightarrow> bool \<times> string" where
  "split_sign s =
     (case s of
        [] \<Rightarrow> (False, [])
      | c # cs \<Rightarrow>
          if c = CHR ''-'' then (True, cs)
          else if c = CHR ''+'' then (False, cs)
          else (False, s))"

definition parse_inf_or_nan :: "bool \<Rightarrow> string \<Rightarrow> pyfloat option" where
  "parse_inf_or_nan neg s =
     (let l = lower s
      in if l = ''inf'' \<or> l = ''infinity'' then Some (if neg then NInf else PInf)
         else if l = ''nan'' then Some NaN
         else None)"

definition parse_exponent :: "string \<Rightarrow> int option" where
  "parse_exponent s =
     (let (neg, ds) = split_sign s
      in if ds \<noteq> [] \<and> list_all is_digit ds
         then Some (if neg then - int (digits_val ds) else int (digits_val ds))
         else None)"

definition scale10 :: "real \<Rightarrow> int \<Rightarrow> real" where
  "scale10 m e = (if 0 \<le> e then m * 10 ^ nat e else m / 10 ^ nat (- e))"

definition parse_decimal :: "string \<Rightarrow> real option" where
  "parse_decimal s =
     (let ip = takeWhile is_digit s;
          r1 = dropWhile is_digit s;
          (fp, r2) = (case r1 of
                        [] \<Rightarrow> ([], [])
                      | c # cs \<Rightarrow>
                          if c = CHR ''.''
                          then (takeWhile is_digit cs, dropWhile is_digit cs)
                          else ([], r1));
          mant = real (digits_val ip) + real (digits_val fp) / 10 ^ length fp
      in if ip = [] \<and> fp = [] then None
         else (case r2 of
                 [] \<Rightarrow> Some mant
               | c # cs \<Rightarrow>
                   if c = CHR ''e'' \<or> c = CHR ''E''
                   then map_option (scale10 mant) (parse_exponent cs)
                   else None))"

definition float_whitespace :: string where
  "float_whitespace = [CHR 0x09, CHR 0x0A, CHR 0x0B, CHR 0x0C, CHR 0x0D, CHR 0x20,
                       CHR 0x85, CHR 0xA0]"

definition py_float :: "string \<Rightarrow> error + pyfloat" where
  "py_float s =
     (case drop_underscores (CHR 0x00) (strip_chars float_whitespace s) of
        None \<Rightarrow> Inl ValueError
      | Some u \<Rightarrow>
          (let (neg, body) = split_sign u
           in case parse_inf_or_nan neg body of
                Some v \<Rightarrow> Inr v
              | None \<Rightarrow>
                  (case parse_decimal body of
                     None \<Rightarrow> Inl ValueError
                   | Some r \<Rightarrow> Inr (round_to_float (if neg then - r else r)))))"

text \<open>
  The scalars \<open>clean_currency\<close> can be called with: \<open>None\<close>, a string, a float
  (\<open>PyFloat NaN\<close> is \<open>np.nan\<close>), or an integer. \<open>pd.isna\<close> holds for \<open>None\<close> and
  \<open>nan\<close> only.
\<close>

datatype pyval = PyNone | PyStr string | PyFloat pyfloat | PyInt int

definition pd_isna :: "pyval \<Rightarrow> bool" where
  "pd_isna v = (v = PyNone \<or> v = PyFloat NaN)"

text \<open>
  \<open>str(n)\<close> for an integer \<open>n\<close>: its decimal digits after a minus sign when \<open>n\<close> is
  negative. Since Python 3.11 the conversion raises \<open>ValueError\<close> when \<open>n\<close> has more than
  4300 digits (the default of \<open>sys.set_int_max_str_digits\<close>).
\<close>

function nat_digits :: "nat \<Rightarrow> string" where
  "nat_digits n =
     (if n < 10 then [''0123456789'' ! n]
      else nat_digits (n div 10) @ [''0123456789'' ! (n mod 10)])"
  by pat_completeness auto
termination
  by (relation "measure id") auto

declare nat_digits.simps [simp del]

definition int_str :: "int \<Rightarrow> error + string" where
  "int_str n =
     (let ds = nat_digits (nat \<bar>n\<bar>)
      in if 4300 < length ds then Inl ValueError
         else Inr (if n < 0 then CHR ''-'' # ds else ds))"

text \<open>An integer that \<open>str\<close> does not convert.\<close>

definition too_long_int :: "pyval \<Rightarrow> bool" where
  "too_long_int x = (case x of PyInt n \<Rightarrow> 4300 < length (nat_digits (nat \<bar>n\<bar>)) | _ \<Rightarrow> False)"

text \<open>
  \<open>clean_currency\<close> of \<open>data_processing.py\<close>. \<open>clean_str s\<close> is the function from the
  string \<open>s = str(amount_str)\<close> on: the two \<open>replace\<close> calls and \<open>strip\<close>, then the
  \<open>try\<close> block, which catches \<open>ValueError\<close> only, so that any other exception of
  \<open>float\<close> would reach the caller. The call \<open>str(amount_str)\<close> itself stands before the
  \<open>try\<close> block: what it raises reaches the caller. For a float argument \<open>str\<close> gives the
  shortest representation that reads back as the same float; it holds neither \<open>$\<close> nor a
  comma nor surrounding whitespace, so the result is the argument.
\<close>

definition clean_str :: "string \<Rightarrow> error + pyfloat" where
  "clean_str s =
     (let cleaned = strip (remove_char (CHR '','') (remove_char (CHR ''$'') s))
      in case py_float cleaned of
           Inr v \<Rightarrow> Inr v
         | Inl ValueError \<Rightarrow> Inr NaN
         | Inl e \<Rightarrow> Inl e)"

definition clean_currency :: "pyval \<Rightarrow> error + pyfloat" where
  "clean_currency amount_str =
     (if pd_isna amount_str then Inr NaN
      else (case amount_str of
              PyStr s \<Rightarrow> clean_str s
            | PyInt n \<Rightarrow> (case int_str n of Inl e \<Rightarrow> Inl e | Inr s \<Rightarrow> clean_str s)
            | PyFloat v \<Rightarrow> Inr v
            | PyNone \<Rightarrow> Inr NaN))"

section \<open>Data frames\<close>

text \<open>
  A cell of a pandas data frame: a missing entry (\<open>NaN\<close> or \<open>None\<close>), a string, or a
  number. Numbers are exact reals, and sums and means of cells are exact. A row is a dictionary from column labels to cells, kept
  as an association list; a label that a row does not hold reads as missing, as in
  \<open>pd.DataFrame(list_of_dicts)\<close>. A data frame is its list of column labels, which are
  meant to be pairwise distinct, and its list of rows.
\<close>

datatype cell = NA | Str string | Num real

type_synonym row = "(string \<times> cell) list"

record dataframe =
  columns :: "string list"
  rows :: "row list"

definition cell_of :: "row \<Rightarrow> string \<Rightarrow> cell" where
  "cell_of r c = (case map_of r c of Some v \<Rightarrow> v | None \<Rightarrow> NA)"

text \<open>\<open>df[c]\<close> as a list of cells; a missing label raises \<open>KeyError\<close>.\<close>

definition get_column :: "dataframe \<Rightarrow> string \<Rightarrow> error + cell list" where
  "get_column df c =
     (if c \<in> set (columns df) then Inr (map (\<lambda>r. cell_of r c) (rows df))
      else Inl (KeyError [c]))"

text \<open>
  The order of Python strings (code point by code point) and the order pandas sorts group
  keys by: numbers before strings.
\<close>

fun str_less :: "string \<Rightarrow> string \<Rightarrow> bool" where
  "str_less [] [] = False"
| "str_less [] (y # ys) = True"
| "str_less (x # xs) [] = False"
| "str_less (x # xs) (y # ys) =
     ((of_char x :: nat) < of_char y \<or> (x = y \<and> str_less xs ys))"

fun cell_less :: "cell \<Rightarrow> cell \<Rightarrow> bool" where
  "cell_less (Num a) (Num b) = (a < b)"
| "cell_less (Num a) (Str t) = True"
| "cell_less (Str s) (Str t) = str_less s t"
| "cell_less (Str s) (Num b) = False"
| "cell_less NA c = False"
| "cell_less c NA = (c \<noteq> NA)"

fun insert_key :: "cell \<Rightarrow> cell list \<Rightarrow> cell list" where
  "insert_key k [] = [k]"
| "insert_key k (x # xs) =
     (if k = x then x # xs
      else if cell_less k x then k # x # xs
      else x # insert_key k xs)"

section \<open>State Aggregator\<close>

text \<open>
  One row of the summary. \<open>avg_grant_size\<close> is \<open>None\<close> where pandas has \<open>NaN\<close> (the mean
  of no value). The aggregation first yields rows with a fifth column,
  \<open>grant_count_check\<close>, which the source then drops.
\<close>

record state_summary =
  state :: cell
  total_funding :: real
  avg_grant_size :: "real option"
  num_grants :: nat

record summary_with_check = state_summary +
  grant_count_check :: nat

text \<open>
  \<open>df.groupby(state_col)\<close>: the groups are the distinct non-missing values of the key
  column, in ascending order (\<open>sort=True\<close>, \<open>dropna=True\<close> are the defaults).
\<close>

definition group_keys :: "dataframe \<Rightarrow> string \<Rightarrow> cell list" where
  "group_keys df state_col =
     foldr insert_key (filter (\<lambda>k. k \<noteq> NA) (map (\<lambda>r. cell_of r state_col) (rows df))) []"

definition group_rows :: "dataframe \<Rightarrow> string \<Rightarrow> cell \<Rightarrow> row list" where
  "group_rows df state_col g = filter (\<lambda>r. cell_of r state_col = g) (rows df)"

text \<open>The numeric entries of a column: pandas' \<open>sum\<close>, \<open>mean\<close> and \<open>count\<close> skip \<open>NaN\<close>.\<close>

fun non_missing :: "cell list \<Rightarrow> real list" where
  "non_missing [] = []"
| "non_missing (Num x # cs) = x # non_missing cs"
| "non_missing (c # cs) = non_missing cs"

definition pd_count :: "cell list \<Rightarrow> nat" where
  "pd_count cs = length (filter (\<lambda>c. c \<noteq> NA) cs)"

definition pd_sum :: "cell list \<Rightarrow> real" where
  "pd_sum cs = sum_list (non_missing cs)"

definition pd_mean :: "cell list \<Rightarrow> real option" where
  "pd_mean cs =
     (if non_missing cs = [] then None
      else Some (sum_list (non_missing cs) / real (length (non_missing cs))))"

definition is_str :: "cell \<Rightarrow> bool" where
  "is_str c = (case c of Str s \<Rightarrow> True | _ \<Rightarrow> False)"

text \<open>
  \<open>.agg({amount_col: ['sum', 'mean', 'count'], 'Grant Number': 'count'})\<close> on one group,
  with the five labels the source assigns after \<open>reset_index()\<close>.
\<close>

definition agg_group :: "dataframe \<Rightarrow> string \<Rightarrow> string \<Rightarrow> cell \<Rightarrow> summary_with_check" where
  "agg_group df state_col amount_col g =
     (let grp = group_rows df state_col g;
          amounts = map (\<lambda>r. cell_of r amount_col) grp
      in \<lparr>state = g,
          total_funding = pd_sum amounts,
          avg_grant_size = pd_mean amounts,
          num_grants = pd_count amounts,
          grant_count_check = pd_count (map (\<lambda>r. cell_of r ''Grant Number'') grp)\<rparr>)"

text \<open>
  \<open>summary.sort_values('total_funding', ascending=False)\<close>. pandas reverses the column,
  asks numpy for a sorting permutation of the reversed values (\<open>argsort\<close> with the default
  \<open>kind='quicksort'\<close>), indexes the reversed rows with it and reverses the outcome. numpy
  documents \<open>quicksort\<close> as not stable, so the permutation it returns among equal values is
  not fixed by the source; it is the parameter \<open>argsort\<close> here. \<open>argsort_ok xs p\<close> says
  that \<open>p\<close> is a permutation of the positions of \<open>xs\<close> that puts \<open>xs\<close> in ascending order,
  which is all numpy promises.
\<close>

definition argsort_ok :: "real list \<Rightarrow> nat list \<Rightarrow> bool" where
  "argsort_ok xs p = (mset p = mset [0..<length xs] \<and> sorted (map ((!) xs) p))"

definition sort_values_desc :: "(real list \<Rightarrow> nat list) \<Rightarrow> state_summary list \<Rightarrow> state_summary list" where
  "sort_values_desc argsort summary =
     (let reversed = rev summary
      in rev (map ((!) reversed) (argsort (map total_funding reversed))))"

definition sort_pair :: "string list \<Rightarrow> string list" where
  "sort_pair cs = (case cs of [a, b] \<Rightarrow> if str_less b a then [b, a] else [a, b] | _ \<Rightarrow> cs)"

text \<open>
  \<open>get_state_summary\<close> of \<open>data_processing.py\<close>. The exceptions, in the order pandas
  raises them: \<open>KeyError\<close> from \<open>groupby\<close> when the key column is absent; \<open>KeyError\<close> from
  \<open>agg\<close> with the sorted labels of the dictionary that the frame lacks; \<open>ValueError\<close>
  from the assignment of five labels when \<open>amount_col\<close> is \<open>'Grant Number'\<close> itself (the
  dictionary literal then has one key and the aggregate has two columns); \<open>TypeError\<close>
  from \<open>mean\<close> when a grouped row holds a string in the amount column.
\<close>

definition get_state_summary ::
  "(real list \<Rightarrow> nat list) \<Rightarrow> dataframe \<Rightarrow> string \<Rightarrow> string \<Rightarrow> error + state_summary list" where
  "get_state_summary argsort df state_col amount_col =
     (let agg_labels = (if amount_col = ''Grant Number'' then [''Grant Number'']
                        else [amount_col, ''Grant Number'']);
          missing = filter (\<lambda>c. c \<notin> set (columns df)) agg_labels;
          keys = group_keys df state_col
      in if state_col \<notin> set (columns df) then Inl (KeyError [state_col])
         else if missing \<noteq> [] then Inl (KeyError (sort_pair missing))
         else if amount_col = ''Grant Number'' then Inl ValueError
         else if list_ex (\<lambda>g. list_ex (\<lambda>r. is_str (cell_of r amount_col))
                                  (group_rows df state_col g)) keys
         then Inl TypeError
         else Inr (sort_values_desc argsort
                     (map (\<lambda>g. state_summary.truncate (agg_group df state_col amount_col g))
                        keys)))"

text \<open>
  A sorting permutation that meets numpy's promise and keeps equal values in their original
  order.
\<close>

definition argsort_stable :: "real list \<Rightarrow> nat list" where
  "argsort_stable xs = sort_key ((!) xs) [0..<length xs]"

text \<open>
  numpy's own kernel for \<open>argsort(kind='quicksort')\<close> on floats, \<open>aquicksort\<close> of
  \<open>npysort/quicksort\<close>: an introsort on the array \<open>a\<close> of positions, which starts as
  \<open>0, 1, ..., num - 1\<close>; \<open>v\<close> holds the values. A range \<open>pl .. pr\<close> of more than 17
  positions is partitioned around the median of its first, middle and last value
  (\<open>median3\<close>, \<open>partition\<close>); the larger part goes on a stack and the loop goes on with
  the smaller one; a range of at most 17 positions is sorted by insertion. A range taken
  from the stack is sorted by \<open>aheapsort\<close> instead when the depth budget, twice the
  position of the highest bit of \<open>num\<close>, is used up. The ranges on the stack are disjoint,
  so \<open>sort_range\<close> sorts them by recursion, where \<open>popped\<close> tells a range taken from the
  stack. The bounds in \<open>scan_up\<close>, \<open>scan_down\<close>, \<open>partition_loop\<close> and \<open>sort_range\<close>
  are never reached: the pivot and the median stop the scans inside the range.
\<close>

definition swap :: "nat list \<Rightarrow> nat \<Rightarrow> nat \<Rightarrow> nat list" where
  "swap a i j = a[i := a ! j, j := a ! i]"

definition median3 :: "real list \<Rightarrow> nat list \<Rightarrow> nat \<Rightarrow> nat \<Rightarrow> nat \<Rightarrow> nat list" where
  "median3 v a pl pm pr =
     (let a1 = (if v ! (a ! pm) < v ! (a ! pl) then swap a pm pl else a);
          a2 = (if v ! (a1 ! pr) < v ! (a1 ! pm) then swap a1 pr pm else a1)
      in if v ! (a2 ! pm) < v ! (a2 ! pl) then swap a2 pm pl else a2)"

function scan_up :: "real list \<Rightarrow> nat list \<Rightarrow> real \<Rightarrow> nat \<Rightarrow> nat" where
  "scan_up v a vp p_i =
     (if p_i < length a \<and> v ! (a ! p_i) < vp then scan_up v a vp (p_i + 1) else p_i)"
  by pat_completeness auto
termination
  by (relation "measure (\<lambda>(v, a, vp, p_i). length a - p_i)") auto

declare scan_up.simps [simp del]

fun scan_down :: "real list \<Rightarrow> nat list \<Rightarrow> real \<Rightarrow> nat \<Rightarrow> nat" where
  "scan_down v a vp p_j =
     (if 0 < p_j \<and> vp < v ! (a ! p_j) then scan_down v a vp (p_j - 1) else p_j)"

declare scan_down.simps [simp del]

function partition_loop :: "real list \<Rightarrow> real \<Rightarrow> nat list \<Rightarrow> nat \<Rightarrow> nat \<Rightarrow> nat list \<times> nat" where
  "partition_loop v vp a p_i p_j =
     (let p_i' = scan_up v a vp (p_i + 1);
          p_j' = scan_down v a vp (p_j - 1)
      in if p_j' \<le> p_i' \<or> p_i' \<le> p_i \<or> p_j \<le> p_j' then (a, p_i')
         else partition_loop v vp (swap a p_i' p_j') p_i' p_j')"
  by pat_completeness auto
termination
  by (relation "measure (\<lambda>(v, vp, a, p_i, p_j). p_j - p_i)") auto

declare partition_loop.simps [simp del]

definition partition :: "real list \<Rightarrow> nat list \<Rightarrow> nat \<Rightarrow> nat \<Rightarrow> nat list \<times> nat" where
  "partition v a pl pr =
     (let pm = pl + (pr - pl) div 2;
          a1 = median3 v a pl pm pr;
          vp = v ! (a1 ! pm);
          (a2, p_i) = partition_loop v vp (swap a1 pm (pr - 1)) pl (pr - 1)
      in (swap a2 p_i (pr - 1), p_i))"

fun shift_up :: "real list \<Rightarrow> nat list \<Rightarrow> real \<Rightarrow> nat \<Rightarrow> nat \<Rightarrow> nat list \<times> nat" where
  "shift_up v a vp pl p_j =
     (if pl < p_j \<and> vp < v ! (a ! (p_j - 1))
      then shift_up v (a[p_j := a ! (p_j - 1)]) vp pl (p_j - 1)
      else (a, p_j))"

declare shift_up.simps [simp del]

definition insertion_sort :: "real list \<Rightarrow> nat list \<Rightarrow> nat \<Rightarrow> nat \<Rightarrow> nat list" where
  "insertion_sort v a pl pr =
     foldl (\<lambda>a p_i. let vi = a ! p_i; (a', p_j) = shift_up v a (v ! vi) pl p_i in a'[p_j := vi])
       a [pl + 1 ..< pr + 1]"

text \<open>
  \<open>aheapsort\<close> on the \<open>n\<close> positions from \<open>off\<close> on, which the source counts from 1:
  it builds a heap with the largest value on top, then moves the top to the end \<open>n - 1\<close>
  times. \<open>sift\<close> is the inner loop of both phases.
\<close>

function sift :: "real list \<Rightarrow> nat list \<Rightarrow> nat \<Rightarrow> nat \<Rightarrow> nat \<Rightarrow> nat \<Rightarrow> nat \<Rightarrow> nat list \<times> nat" where
  "sift v a off tmp n i j =
     (if 0 < j \<and> j \<le> n
      then (let j' = (if j < n \<and> v ! (a ! (off + j - 1)) < v ! (a ! (off + j)) then j + 1 else j)
            in if v ! tmp < v ! (a ! (off + j' - 1))
               then sift v (a[off + i - 1 := a ! (off + j' - 1)]) off tmp n j' (j' + j')
               else (a, i))
      else (a, i))"
  by pat_completeness auto
termination
  by (relation "measure (\<lambda>(v, a, off, tmp, n, i, j). n + 1 - j)") (auto simp: Let_def)

declare sift.simps [simp del]

definition aheapsort :: "real list \<Rightarrow> nat list \<Rightarrow> nat \<Rightarrow> nat \<Rightarrow> nat list" where
  "aheapsort v a off n =
     (let heap = foldl (\<lambda>a l. let tmp = a ! (off + l - 1);
                                  (a', i) = sift v a off tmp n l (2 * l)
                              in a'[off + i - 1 := tmp])
                   a (rev [1 ..< n div 2 + 1])
      in foldl (\<lambda>a m. let tmp = a ! (off + m - 1);
                          (a', i) = sift v (a[off + m - 1 := a ! off]) off tmp (m - 1) 1 2
                      in a'[off + i - 1 := tmp])
           heap (rev [2 ..< n + 1]))"

function npy_get_msb :: "nat \<Rightarrow> nat" where
  "npy_get_msb n = (if n < 2 then 0 else 1 + npy_get_msb (n div 2))"
  by pat_completeness auto
termination
  by (relation "measure id") auto

declare npy_get_msb.simps [simp del]

function sort_range :: "real list \<Rightarrow> nat list \<Rightarrow> nat \<Rightarrow> nat \<Rightarrow> int \<Rightarrow> bool \<Rightarrow> nat list" where
  "sort_range v a pl pr cdepth popped =
     (if popped \<and> cdepth < 0 then aheapsort v a pl (pr - pl + 1)
      else if 16 < pr - pl
      then (let (a', p_i) = partition v a pl pr
            in if p_i \<le> pl \<or> pr \<le> p_i then a'
               else if p_i - pl < pr - p_i
               then sort_range v (sort_range v a' pl (p_i - 1) (cdepth - 1) False)
                      (p_i + 1) pr (cdepth - 1) True
               else sort_range v (sort_range v a' (p_i + 1) pr (cdepth - 1) False)
                      pl (p_i - 1) (cdepth - 1) True)
      else insertion_sort v a pl pr)"
  by pat_completeness auto
termination
  by (relation "measure (\<lambda>(v, a, pl, pr, cdepth, popped). pr - pl)") auto

declare sort_range.simps [simp del]

definition aquicksort :: "real list \<Rightarrow> nat list" where
  "aquicksort v =
     (let num = length v
      in if num = 0 then []
         else sort_range v [0 ..< num] 0 (num - 1) (2 * int (npy_get_msb num)) True)"

section \<open>Outlier Detector\<close>

text \<open>
  A numeric pandas series is a list of entries, \<open>None\<close> for a missing one (\<open>NaN\<close>). The
  reductions \<open>mean\<close>, \<open>std\<close> and \<open>quantile\<close> skip missing entries and give \<open>NaN\<close>
  (\<open>None\<close>) when too few entries remain.
\<close>

fun dropna :: "real option list \<Rightarrow> real list" where
  "dropna [] = []"
| "dropna (Some x # xs) = x # dropna xs"
| "dropna (None # xs) = dropna xs"

text \<open>
  numpy's sum of a float array (\<open>ndarray.sum\<close>). Fewer than eight entries are added one
  after the other. Up to 128 entries are added in eight interleaved partial sums
  (\<open>add_blocks\<close> adds one block of eight entries after the other to the eight sums), the
  eight sums are added in pairs, and the entries left over at the end are added one after
  the other. A longer array is split in two at a multiple of eight near the middle, and the
  sums of the two parts are added.
\<close>

function add_blocks :: "(real \<Rightarrow> real) \<Rightarrow> real list \<Rightarrow> real list \<Rightarrow> real list \<times> real list" where
  "add_blocks fl r xs =
     (if length xs < 8 then (r, xs)
      else add_blocks fl (map2 (\<lambda>a x. fl (a + x)) r (take 8 xs)) (drop 8 xs))"
  by pat_completeness auto
termination
  by (relation "measure (\<lambda>(fl, r, xs). length xs)") auto

declare add_blocks.simps [simp del]

definition block_sum :: "(real \<Rightarrow> real) \<Rightarrow> real list \<Rightarrow> real" where
  "block_sum fl a =
     (let (r, rest) = add_blocks fl (take 8 a) (drop 8 a);
          res = fl (fl (fl (r ! 0 + r ! 1) + fl (r ! 2 + r ! 3))
                    + fl (fl (r ! 4 + r ! 5) + fl (r ! 6 + r ! 7)))
      in foldl (\<lambda>res x. fl (res + x)) res rest)"

function pairwise_sum :: "(real \<Rightarrow> real) \<Rightarrow> real list \<Rightarrow> real" where
  "pairwise_sum fl a =
     (let n = length a
      in if n < 8 then foldl (\<lambda>res x. fl (res + x)) 0 a
         else if n \<le> 128 then block_sum fl a
         else (let n2 = n div 2 - (n div 2) mod 8
               in fl (pairwise_sum fl (take n2 a) + pairwise_sum fl (drop n2 a))))"
  by pat_completeness auto
termination
  by (relation "measure (\<lambda>(fl, a). length a)") auto

declare pairwise_sum.simps [simp del]

text \<open>
  \<open>Series.mean\<close> and \<open>Series.std\<close>. pandas puts \<open>0\<close> in the place of the missing entries
  and sums all places; the divisor is the number of entries that are not missing.
  \<open>Series.std\<close> has \<open>ddof=1\<close> by default: it takes the mean, sums the squared
  deviations from it (\<open>0\<close> again in the place of a missing entry), divides by the number
  of entries minus one, and takes the square root.
\<close>

definition fill_zero :: "real option list \<Rightarrow> real list" where
  "fill_zero series = map (\<lambda>x. case x of None \<Rightarrow> 0 | Some y \<Rightarrow> y) series"

definition series_mean :: "(real \<Rightarrow> real) \<Rightarrow> real option list \<Rightarrow> real option" where
  "series_mean fl series =
     (let count = length (dropna series)
      in if count = 0 then None
         else Some (fl (pairwise_sum fl (fill_zero series) / real count)))"

definition series_std :: "(real \<Rightarrow> real) \<Rightarrow> real option list \<Rightarrow> real option" where
  "series_std fl series =
     (let count = length (dropna series)
      in if count \<le> 1 then None
         else (let avg = fl (pairwise_sum fl (fill_zero series) / real count);
                   sqr = map (\<lambda>x. case x of None \<Rightarrow> 0 | Some y \<Rightarrow> fl ((fl (avg - y))\<^sup>2)) series
               in Some (fl (sqrt (fl (pairwise_sum fl sqr / real (count - 1)))))))"

text \<open>
  \<open>Series.quantile(q)\<close> for \<open>0 \<le> q \<le> 1\<close>, with numpy's linear interpolation between
  the two neighbours of position \<open>(n - 1) * q\<close> in the sorted entries.
\<close>

definition lerp :: "(real \<Rightarrow> real) \<Rightarrow> real \<Rightarrow> real \<Rightarrow> real \<Rightarrow> real" where
  "lerp fl a b t =
     (if 1 / 2 \<le> t then fl (b - fl (fl (b - a) * fl (1 - t)))
      else fl (a + fl (fl (b - a) * t)))"

definition quantile :: "(real \<Rightarrow> real) \<Rightarrow> real option list \<Rightarrow> real \<Rightarrow> real option" where
  "quantile fl series q =
     (let v = sort (dropna series); n = length v
      in if n = 0 then None
         else (let h = fl (real (n - 1) * q); lo = nat \<lfloor>h\<rfloor>; hi = min (lo + 1) (n - 1)
               in Some (lerp fl (v ! lo) (v ! hi) (fl (h - real lo)))))"

text \<open>
  Arithmetic and comparison with \<open>NaN\<close>: an operation on \<open>NaN\<close> gives \<open>NaN\<close>, a
  comparison with \<open>NaN\<close> is false. numpy's division does not raise on a zero divisor: it
  gives \<open>nan\<close> for \<open>0 / 0\<close> and an infinity otherwise.
\<close>

definition nan_sub :: "(real \<Rightarrow> real) \<Rightarrow> real option \<Rightarrow> real option \<Rightarrow> real option" where
  "nan_sub fl a b = (case (a, b) of (Some x, Some y) \<Rightarrow> Some (fl (x - y)) | _ \<Rightarrow> None)"

definition nan_add :: "(real \<Rightarrow> real) \<Rightarrow> real option \<Rightarrow> real option \<Rightarrow> real option" where
  "nan_add fl a b = (case (a, b) of (Some x, Some y) \<Rightarrow> Some (fl (x + y)) | _ \<Rightarrow> None)"

definition nan_scale :: "(real \<Rightarrow> real) \<Rightarrow> real \<Rightarrow> real option \<Rightarrow> real option" where
  "nan_scale fl t a = map_option (\<lambda>x. fl (t * x)) a"

definition nan_less :: "real option \<Rightarrow> real option \<Rightarrow> bool" where
  "nan_less a b = (case (a, b) of (Some x, Some y) \<Rightarrow> x < y | _ \<Rightarrow> False)"

definition np_divide :: "(real \<Rightarrow> real) \<Rightarrow> real option \<Rightarrow> real option \<Rightarrow> pyfloat" where
  "np_divide fl a b =
     (case (a, b) of
        (Some x, Some y) \<Rightarrow>
          if y = 0 then (if x = 0 then NaN else if 0 < x then PInf else NInf)
          else Fin (fl (x / y))
      | _ \<Rightarrow> NaN)"

fun np_abs :: "pyfloat \<Rightarrow> pyfloat" where
  "np_abs (Fin x) = Fin \<bar>x\<bar>"
| "np_abs PInf = PInf"
| "np_abs NInf = PInf"
| "np_abs NaN = NaN"

fun greater_than :: "pyfloat \<Rightarrow> real \<Rightarrow> bool" where
  "greater_than (Fin x) t = (t < x)"
| "greater_than PInf t = True"
| "greater_than NInf t = False"
| "greater_than NaN t = False"

text \<open>
  \<open>identify_outliers\<close> of \<open>data_processing.py\<close>, with the rounding \<open>fl\<close> of its
  arithmetic as first argument.
\<close>

definition identify_outliers ::
  "(real \<Rightarrow> real) \<Rightarrow> real option list \<Rightarrow> string \<Rightarrow> real \<Rightarrow> error + bool list" where
  "identify_outliers fl series method threshold =
     (if method = ''iqr'' then
        (let Q1 = quantile fl series (1 / 4);
             Q3 = quantile fl series (3 / 4);
             IQR = nan_sub fl Q3 Q1;
             lower_bound = nan_sub fl Q1 (nan_scale fl threshold IQR);
             upper_bound = nan_add fl Q3 (nan_scale fl threshold IQR)
         in Inr (map (\<lambda>x. nan_less x lower_bound \<or> nan_less upper_bound x) series))
      else if method = ''zscore'' then
        (let z_scores = map (\<lambda>x. np_abs (np_divide fl (nan_sub fl x (series_mean fl series))
                                                          (series_std fl series))) series
         in Inr (map (\<lambda>z. greater_than z threshold) z_scores))
      else Inl ValueError)"


text \<open>The binary64 number nearest to \<open>0.1\<close>.\<close>

definition tenth :: real where
  "tenth = 3602879701896397 / 36028797018963968"

section \<open>Dataset Merger\<close>

text \<open>
  \<open>funding_df.merge(health_df, on=on, how='left')\<close>. Both frames must hold the key
  column. A label other than the key that both frames hold gets the suffix \<open>_x\<close> on the
  left and \<open>_y\<close> on the right, and pandas raises \<open>MergeError\<close> when the suffix makes two
  labels of the result equal. The result keeps the left rows in order; a left row appears
  once for every right row with an equal key (missing keys match each other), and once with
  missing right cells when there is none. The two key columns are taken to be of one kind
  (pandas raises \<open>ValueError\<close> where one holds strings and the other numbers).
\<close>

definition left_label :: "dataframe \<Rightarrow> string \<Rightarrow> string \<Rightarrow> string" where
  "left_label right on c = (if c \<noteq> on \<and> c \<in> set (columns right) then c @ ''_x'' else c)"

definition right_label :: "dataframe \<Rightarrow> string \<Rightarrow> string" where
  "right_label left c = (if c \<in> set (columns left) then c @ ''_y'' else c)"

definition right_columns :: "dataframe \<Rightarrow> string \<Rightarrow> string list" where
  "right_columns right on = filter (\<lambda>c. c \<noteq> on) (columns right)"

definition join_rows :: "dataframe \<Rightarrow> dataframe \<Rightarrow> string \<Rightarrow> row \<Rightarrow> row option \<Rightarrow> row" where
  "join_rows left right on l ropt =
     map (\<lambda>c. (left_label right on c, cell_of l c)) (columns left)
     @ map (\<lambda>c. (right_label left c, case ropt of None \<Rightarrow> NA | Some r \<Rightarrow> cell_of r c))
         (right_columns right on)"

definition matches :: "dataframe \<Rightarrow> string \<Rightarrow> row \<Rightarrow> row list" where
  "matches right on l = filter (\<lambda>r. cell_of r on = cell_of l on) (rows right)"

definition merge_left :: "dataframe \<Rightarrow> dataframe \<Rightarrow> string \<Rightarrow> error + dataframe" where
  "merge_left left right on =
     (let llabels = map (left_label right on) (columns left);
          rlabels = map (right_label left) (right_columns right on)
      in if on \<notin> set (columns left) \<or> on \<notin> set (columns right) then Inl (KeyError [on])
         else if \<not> distinct (llabels @ rlabels) then Inl MergeError
         else Inr \<lparr>columns = llabels @ rlabels,
                   rows = concat (map (\<lambda>l. case matches right on l of
                                              [] \<Rightarrow> [join_rows left right on l None]
                                            | ms \<Rightarrow> map (\<lambda>r. join_rows left right on l (Some r)) ms)
                                    (rows left))\<rparr>)"

text \<open>What the function prints, in order.\<close>

datatype message =
    Merging string
  | MergedInfo nat nat
  | UnmatchedWarning nat

text \<open>
  \<open>merge_health_and_funding\<close> of \<open>api_fetcher.py\<close>. The lookup
  \<open>merged['infant_mortality_rate']\<close> raises \<open>KeyError\<close> when the merged frame has no
  such label. The result is the merged frame together with the printed messages.
\<close>

definition merge_health_and_funding ::
  "dataframe \<Rightarrow> dataframe \<Rightarrow> string \<Rightarrow> error + (dataframe \<times> message list)" where
  "merge_health_and_funding funding_df health_df on =
     (case merge_left funding_df health_df on of
        Inl e \<Rightarrow> Inl e
      | Inr merged \<Rightarrow>
          (case get_column merged ''infant_mortality_rate'' of
             Inl e \<Rightarrow> Inl e
           | Inr indicator \<Rightarrow>
               (let unmatched = length (filter (\<lambda>c. c = NA) indicator);
                    out = [Merging on, MergedInfo (length (rows merged)) (length (columns merged))]
                          @ (if 0 < unmatched then [UnmatchedWarning unmatched] else [])
                in Inr (merged, out))))"

section \<open>Example tables\<close>

text \<open>
  The grant table of the end-to-end scenario in section 8 of the specification, after
  \<open>load_grant_data\<close>: the amount \<open>"bad"\<close> of grant \<open>G3\<close> has become \<open>NaN\<close>.
\<close>

definition grants_example :: dataframe where
  "grants_example =
     \<lparr>columns = [''Grant Number'', ''State'', ''Program Name'', ''Awardee Amount''],
      rows = [ [(''Grant Number'', Str ''G1''), (''State'', Str ''CA''),
               (''Program Name'', Str ''Maternal Health Initiative''),
               (''Awardee Amount'', Num 10000)],
              [(''Grant Number'', Str ''G2''), (''State'', Str ''CA''),
               (''Program Name'', Str ''Home Visiting Program''),
               (''Awardee Amount'', Num 5000)],
              [(''Grant Number'', Str ''G3''), (''State'', Str ''TX''),
               (''Program Name'', NA),
               (''Awardee Amount'', NA)] ]\<rparr>"

text \<open>Two states with the same total.\<close>

definition tied_grants :: dataframe where
  "tied_grants =
     \<lparr>columns = [''Grant Number'', ''State'', ''Awardee Amount''],
      rows = [ [(''Grant Number'', Str ''G1''), (''State'', Str ''CA''),
               (''Awardee Amount'', Num 5000)],
              [(''Grant Number'', Str ''G2''), (''State'', Str ''TX''),
               (''Awardee Amount'', Num 5000)] ]\<rparr>"

text \<open>Eighteen states with one grant of 1000 each, in ascending order of the state code.\<close>

definition grant_of :: "string \<Rightarrow> row" where
  "grant_of st = [(''Grant Number'', Str (''G-'' @ st)), (''State'', Str st),
                  (''Awardee Amount'', Num 1000)]"

definition eighteen_tied_states :: dataframe where
  "eighteen_tied_states =
     \<lparr>columns = [''Grant Number'', ''State'', ''Awardee Amount''],
      rows = map grant_of
               [''AK'', ''AL'', ''AR'', ''AZ'', ''CA'', ''CO'', ''CT'', ''DE'', ''FL'',
                ''GA'', ''HI'', ''IA'', ''ID'', ''IL'', ''IN'', ''KS'', ''KY'', ''LA'']\<rparr>"

text \<open>The frame \<open>df\<close> with the cells under label \<open>c\<close> replaced by \<open>vs\<close>, row by row.\<close>

definition replace_cells :: "dataframe \<Rightarrow> string \<Rightarrow> cell list \<Rightarrow> dataframe" where
  "replace_cells df c vs = df\<lparr>rows := map (\<lambda>(r, v). (c, v) # r) (zip (rows df) vs)\<rparr>"

text \<open>
  The summary of \<open>grants_example\<close> with the key column renamed to \<open>state\<close>, as
  \<open>get_full_dataset\<close> passes it to the merger, and three health tables: one with the same
  state twice, one without the column \<open>infant_mortality_rate\<close>, one without rows.
\<close>

definition funding_example :: dataframe where
  "funding_example =
     \<lparr>columns = [''state'', ''total_funding'', ''avg_grant_size'', ''num_grants''],
      rows = [ [(''state'', Str ''CA''), (''total_funding'', Num 15000),
               (''avg_grant_size'', Num 7500), (''num_grants'', Num 2)],
              [(''state'', Str ''TX''), (''total_funding'', Num 0),
               (''avg_grant_size'', NA), (''num_grants'', Num 0)] ]\<rparr>"

definition health_duplicate_key :: dataframe where
  "health_duplicate_key =
     \<lparr>columns = [''state'', ''infant_mortality_rate''],
      rows = [ [(''state'', Str ''CA''), (''infant_mortality_rate'', Num (51 / 10))],
              [(''state'', Str ''CA''), (''infant_mortality_rate'', Num (62 / 10))] ]\<rparr>"

definition health_no_indicator :: dataframe where
  "health_no_indicator =
     \<lparr>columns = [''state'', ''prenatal_care_pct''],
      rows = [ [(''state'', Str ''CA''), (''prenatal_care_pct'', Num 80)] ]\<rparr>"

definition health_empty :: dataframe where
  "health_empty = \<lparr>columns = [''state'', ''infant_mortality_rate''], rows = []\<rparr>"

definition health_example :: dataframe where
  "health_example =
     \<lparr>columns = [''state'', ''infant_mortality_rate''],
      rows = [ [(''state'', Str ''CA''), (''infant_mortality_rate'', Num (51 / 10))] ]\<rparr>"

section \<open>Properties of the string helpers\<close>

lemma contains_iff: "contains sub s \<longleftrightarrow> (\<exists>ps ss. s = ps @ sub @ ss)"
proof (induction s)
  case Nil
  show ?case by auto
next
  case (Cons c cs)
  show ?case
  proof
    assume "contains sub (c # cs)"
    then consider "prefix sub (c # cs)" | "contains sub cs" by auto
    then show "\<exists>ps ss. c # cs = ps @ sub @ ss"
    proof cases
      case 1
      then obtain ss where "c # cs = sub @ ss" by (auto simp: prefix_def)
      then have "c # cs = [] @ sub @ ss" by simp
      then show ?thesis by blast
    next
      case 2
      with Cons.IH obtain ps ss where "cs = ps @ sub @ ss" by blast
      then have "c # cs = (c # ps) @ sub @ ss" by simp
      then show ?thesis by blast
    qed
  next
    assume "\<exists>ps ss. c # cs = ps @ sub @ ss"
    then obtain ps ss where eq: "c # cs = ps @ sub @ ss" by blast
    show "contains sub (c # cs)"
    proof (cases ps)
      case Nil
      with eq have "prefix sub (c # cs)" by (simp add: prefix_def)
      then show ?thesis by simp
    next
      case (Cons p ps')
      with eq have "cs = ps' @ sub @ ss" by simp
      with Cons.IH have "contains sub cs" by blast
      then show ?thesis by simp
    qed
  qed
qed

section \<open>Program Categorizer: rule order\<close>

lemma categorize_program_first_match:
  "categorize_program (Some s) = first_match spec_rules (lower s)"
  by (simp add: categorize_program_def spec_rules_def Let_def)

text \<open>
  Claim C7, as the source has it. A missing name gives \<open>Unknown\<close>; on a string the function
  is the first-match evaluation of the ordered rule table on the lower-cased name; a name
  that contains "maternal" and "training" and matches rule 2 (contains "mental health" or
  "pediatric mental") is not labelled \<open>Maternal Health\<close> but \<open>Mental Health\<close>, so the
  precedence of rule 3 over rule 6 gives \<open>Maternal Health\<close> exactly for the names that rule 2
  does not take; a name that contains "home" but not "visit" and matches none of the rules
  2, 3, 5, 6, 7, 8 gives \<open>Other\<close>.
\<close>

theorem categorize_program_rule_order:
  "categorize_program None = ''Unknown''
   \<and> categorize_program (Some s) = first_match spec_rules (lower s)
   \<and> (contains ''maternal'' (lower s) \<and> contains ''training'' (lower s)
        \<and> \<not> contains ''mental health'' (lower s)
        \<and> \<not> contains ''pediatric mental'' (lower s)
      \<longrightarrow> categorize_program (Some s) = ''Maternal Health'')
   \<and> (contains ''home'' (lower t) \<and> \<not> contains ''visit'' (lower t)
        \<and> \<not> (contains ''mental health'' (lower t) \<or> contains ''pediatric mental'' (lower t))
        \<and> \<not> (contains ''maternal'' (lower t) \<or> contains ''healthy start'' (lower t))
        \<and> \<not> (contains ''cshcn'' (lower t) \<or> contains ''special'' (lower t))
        \<and> \<not> (contains ''training'' (lower t) \<or> contains ''leadership'' (lower t)
              \<or> contains ''education'' (lower t))
        \<and> \<not> (contains ''emsc'' (lower t) \<or> contains ''emergency'' (lower t))
        \<and> \<not> (contains ''screening'' (lower t) \<or> contains ''newborn'' (lower t))
      \<longrightarrow> categorize_program (Some t) = ''Other'')"
proof (intro conjI impI)
  show "categorize_program None = ''Unknown''"
    by (simp add: categorize_program_def)
  show "categorize_program (Some s) = first_match spec_rules (lower s)"
    by (rule categorize_program_first_match)
next
  assume "contains ''maternal'' (lower s) \<and> contains ''training'' (lower s)
        \<and> \<not> contains ''mental health'' (lower s)
        \<and> \<not> contains ''pediatric mental'' (lower s)"
  then show "categorize_program (Some s) = ''Maternal Health''"
    by (simp add: categorize_program_def Let_def)
next
  assume "contains ''home'' (lower t) \<and> \<not> contains ''visit'' (lower t)
        \<and> \<not> (contains ''mental health'' (lower t) \<or> contains ''pediatric mental'' (lower t))
        \<and> \<not> (contains ''maternal'' (lower t) \<or> contains ''healthy start'' (lower t))
        \<and> \<not> (contains ''cshcn'' (lower t) \<or> contains ''special'' (lower t))
        \<and> \<not> (contains ''training'' (lower t) \<or> contains ''leadership'' (lower t)
              \<or> contains ''education'' (lower t))
        \<and> \<not> (contains ''emsc'' (lower t) \<or> contains ''emergency'' (lower t))
        \<and> \<not> (contains ''screening'' (lower t) \<or> contains ''newborn'' (lower t))"
  then show "categorize_program (Some t) = ''Other''"
    by (simp add: categorize_program_def Let_def)
qed

theorem categorize_program_rule_order_witness:
  "(contains ''maternal'' (lower ''Maternal and Child Health Training'')
      \<and> contains ''training'' (lower ''Maternal and Child Health Training'')
      \<and> \<not> contains ''mental health'' (lower ''Maternal and Child Health Training'')
      \<and> \<not> contains ''pediatric mental'' (lower ''Maternal and Child Health Training''))
   \<and> categorize_program (Some ''Maternal and Child Health Training'') = ''Maternal Health''
   \<and> (contains ''home'' (lower ''Home Care Support'')
      \<and> \<not> contains ''visit'' (lower ''Home Care Support'')
      \<and> \<not> (contains ''mental health'' (lower ''Home Care Support'')
            \<or> contains ''pediatric mental'' (lower ''Home Care Support''))
      \<and> \<not> (contains ''maternal'' (lower ''Home Care Support'')
            \<or> contains ''healthy start'' (lower ''Home Care Support''))
      \<and> \<not> (contains ''cshcn'' (lower ''Home Care Support'')
            \<or> contains ''special'' (lower ''Home Care Support''))
      \<and> \<not> (contains ''training'' (lower ''Home Care Support'')
            \<or> contains ''leadership'' (lower ''Home Care Support'')
            \<or> contains ''education'' (lower ''Home Care Support''))
      \<and> \<not> (contains ''emsc'' (lower ''Home Care Support'')
            \<or> contains ''emergency'' (lower ''Home Care Support''))
      \<and> \<not> (contains ''screening'' (lower ''Home Care Support'')
            \<or> contains ''newborn'' (lower ''Home Care Support'')))
   \<and> categorize_program (Some ''Home Care Support'') = ''Other''"
proof -
  have hs: "contains ''maternal'' (lower ''Maternal and Child Health Training'')
      \<and> contains ''training'' (lower ''Maternal and Child Health Training'')
      \<and> \<not> contains ''mental health'' (lower ''Maternal and Child Health Training'')
      \<and> \<not> contains ''pediatric mental'' (lower ''Maternal and Child Health Training'')"
    by code_simp
  have ht: "contains ''home'' (lower ''Home Care Support'')
      \<and> \<not> contains ''visit'' (lower ''Home Care Support'')
      \<and> \<not> (contains ''mental health'' (lower ''Home Care Support'')
            \<or> contains ''pediatric mental'' (lower ''Home Care Support''))
      \<and> \<not> (contains ''maternal'' (lower ''Home Care Support'')
            \<or> contains ''healthy start'' (lower ''Home Care Support''))
      \<and> \<not> (contains ''cshcn'' (lower ''Home Care Support'')
            \<or> contains ''special'' (lower ''Home Care Support''))
      \<and> \<not> (contains ''training'' (lower ''Home Care Support'')
            \<or> contains ''leadership'' (lower ''Home Care Support'')
            \<or> contains ''education'' (lower ''Home Care Support''))
      \<and> \<not> (contains ''emsc'' (lower ''Home Care Support'')
            \<or> contains ''emergency'' (lower ''Home Care Support''))
      \<and> \<not> (contains ''screening'' (lower ''Home Care Support'')
            \<or> contains ''newborn'' (lower ''Home Care Support''))"
    by code_simp
  note inst = categorize_program_rule_order
    [of "''Maternal and Child Health Training''" "''Home Care Support''"]
  from inst have i1:
    "contains ''maternal'' (lower ''Maternal and Child Health Training'')
      \<and> contains ''training'' (lower ''Maternal and Child Health Training'')
      \<and> \<not> contains ''mental health'' (lower ''Maternal and Child Health Training'')
      \<and> \<not> contains ''pediatric mental'' (lower ''Maternal and Child Health Training'')
     \<longrightarrow> categorize_program (Some ''Maternal and Child Health Training'')
          = ''Maternal Health''"
    by (elim conjE)
  from i1 hs have c1:
    "categorize_program (Some ''Maternal and Child Health Training'') = ''Maternal Health''"
    by (rule mp)
  from inst have i2:
    "contains ''home'' (lower ''Home Care Support'')
      \<and> \<not> contains ''visit'' (lower ''Home Care Support'')
      \<and> \<not> (contains ''mental health'' (lower ''Home Care Support'')
            \<or> contains ''pediatric mental'' (lower ''Home Care Support''))
      \<and> \<not> (contains ''maternal'' (lower ''Home Care Support'')
            \<or> contains ''healthy start'' (lower ''Home Care Support''))
      \<and> \<not> (contains ''cshcn'' (lower ''Home Care Support'')
            \<or> contains ''special'' (lower ''Home Care Support''))
      \<and> \<not> (contains ''training'' (lower ''Home Care Support'')
            \<or> contains ''leadership'' (lower ''Home Care Support'')
            \<or> contains ''education'' (lower ''Home Care Support''))
      \<and> \<not> (contains ''emsc'' (lower ''Home Care Support'')
            \<or> contains ''emergency'' (lower ''Home Care Support''))
      \<and> \<not> (contains ''screening'' (lower ''Home Care Support'')
            \<or> contains ''newborn'' (lower ''Home Care Support''))
     \<longrightarrow> categorize_program (Some ''Home Care Support'') = ''Other''"
    by (elim conjE)
  from i2 ht have c2: "categorize_program (Some ''Home Care Support'') = ''Other''"
    by (rule mp)
  from hs c1 ht c2 show ?thesis by - (elim conjE, intro conjI; assumption)
qed

text \<open>
  The claim as stated fails where rule 2 also matches: the name below contains both
  "maternal" and "training", and the source labels it \<open>Mental Health\<close>.
\<close>

theorem categorize_program_maternal_training_counterexample:
  "contains ''maternal'' (lower ''Maternal Mental Health Training'')
   \<and> contains ''training'' (lower ''Maternal Mental Health Training'')
   \<and> categorize_program (Some ''Maternal Mental Health Training'') = ''Mental Health''
   \<and> categorize_program (Some ''Maternal Mental Health Training'') \<noteq> ''Maternal Health''"
  by code_simp


section \<open>Rounding to binary64\<close>

lemma pow2_pos: "0 < pow2 e"
  by (simp add: pow2_def)

lemma pow2_powr: "pow2 e = 2 powr (real_of_int e)"
proof (cases "0 \<le> e")
  case True
  then have "real_of_int e = real (nat e)" by simp
  then have "2 powr (real_of_int e) = (2::real) ^ nat e" by (simp only: powr_realpow) 
  with True show ?thesis by (simp add: pow2_def)
next
  case False
  then have "real_of_int e = - real (nat (- e))" by simp
  then have "2 powr (real_of_int e) = 1 / (2::real) ^ nat (- e)"
    by (simp only: powr_minus_divide powr_realpow) 
  with False show ?thesis by (simp add: pow2_def)
qed

lemma floor_log2:
  assumes "pow2 k \<le> \<bar>x\<bar>" and "\<bar>x\<bar> < pow2 (k + 1)"
  shows "\<lfloor>log 2 \<bar>x\<bar>\<rfloor> = k"
proof -
  from assms(1) pow2_pos [of k] have pos: "0 < \<bar>x\<bar>" by linarith
  from assms(1) have "2 powr (real_of_int k) \<le> \<bar>x\<bar>" by (simp add: pow2_powr)
  with pos have lo: "real_of_int k \<le> log 2 \<bar>x\<bar>" by (simp add: le_log_iff)
  from assms(2) have "\<bar>x\<bar> < 2 powr (real_of_int (k + 1))" by (simp only: pow2_powr)
  with pos have hi: "log 2 \<bar>x\<bar> < real_of_int (k + 1)" by (simp add: log_less_iff)
  from lo hi show ?thesis by (simp add: floor_eq_iff)
qed

lemma binary64_eval:
  assumes "pow2 k \<le> \<bar>x\<bar>" and "\<bar>x\<bar> < pow2 (k + 1)" and "rne (x / pow2 (k - 52)) = n"
    and "- 1022 \<le> k"
  shows "binary64 x = of_int n * pow2 (k - 52)"
proof -
  from assms(1) pow2_pos [of k] have "x \<noteq> 0" by auto
  with floor_log2 [OF assms(1) assms(2)] assms(3) assms(4) show ?thesis
    by (simp add: binary64_def Let_def max_def)
qed

lemma rne_of_int: "rne (of_int k) = k"
  by (simp add: rne_def)

lemma rne_nearest:
  assumes "of_int k - 1 / 2 < y" and "y < of_int k + 1 / 2"
  shows "rne y = k"
proof (cases "of_int k \<le> y")
  case True
  with assms(2) have "\<lfloor>y\<rfloor> = k" by (simp add: floor_eq_iff)
  with assms(2) show ?thesis by (simp add: rne_def Let_def)
next
  case False
  with assms(1) have "\<lfloor>y\<rfloor> = k - 1" by (simp add: floor_eq_iff)
  with assms(1) False show ?thesis by (simp add: rne_def Let_def)
qed

lemma rne_tie: "rne (of_int f + 1 / 2) = (if even f then f else f + 1)"
proof -
  have "\<lfloor>of_int f + (1 / 2 :: real)\<rfloor> = f" by (simp add: floor_eq_iff)
  then show ?thesis by (simp add: rne_def Let_def)
qed

lemma binary64_exact:
  assumes "pow2 k \<le> \<bar>x\<bar>" and "\<bar>x\<bar> < pow2 (k + 1)" and "x / pow2 (k - 52) = of_int n"
    and "- 1022 \<le> k"
  shows "binary64 x = x"
proof -
  from assms(3) have "rne (x / pow2 (k - 52)) = n" by (simp only: rne_of_int)
  from binary64_eval [OF assms(1) assms(2) this assms(4)]
  have "binary64 x = of_int n * pow2 (k - 52)" .
  also from assms(3) pow2_pos [of "k - 52"] have "of_int n * pow2 (k - 52) = x"
    by (simp add: field_simps)
  finally show ?thesis .
qed

text \<open>An integer below \<open>2^53\<close> in absolute value is a float.\<close>

lemma binary64_of_int:
  assumes "\<bar>m\<bar> < 2 ^ 53"
  shows "binary64 (of_int m) = of_int m"
proof (cases "m = 0")
  case True
  then show ?thesis by (simp add: binary64_def)
next
  case False
  define x :: real where "x = of_int m"
  define k where "k = \<lfloor>log 2 \<bar>x\<bar>\<rfloor>"
  from False have x1: "1 \<le> \<bar>x\<bar>" unfolding x_def by (simp flip: of_int_abs)
  then have k0: "0 \<le> k" unfolding k_def by simp
  from assms have "\<bar>x\<bar> < 2 ^ 53" unfolding x_def
    by (metis of_int_abs of_int_less_numeral_power_cancel_iff)
  then have "\<bar>x\<bar> < 2 powr 53" by simp
  with x1 have "log 2 \<bar>x\<bar> < 53" by (simp add: log_less_iff)
  then have k52: "k \<le> 52" unfolding k_def by (simp add: floor_le_iff)
  define j where "j = nat (52 - k)"
  from k0 k52 have e: "pow2 (k - 52) = 1 / 2 ^ j"
    unfolding j_def pow2_def by (cases "k = 52") simp_all
  have "x / pow2 (k - 52) = of_int (m * 2 ^ j)" unfolding e x_def by simp
  then have r: "rne (x / pow2 (k - 52)) = m * 2 ^ j" by (simp only: rne_of_int)
  from False have "x \<noteq> 0" unfolding x_def by simp
  from k0 have mx: "max \<lfloor>log 2 \<bar>x\<bar>\<rfloor> (- 1022) = k" unfolding k_def by linarith
  from \<open>x \<noteq> 0\<close> have "binary64 x = of_int (rne (x / pow2 (k - 52))) * pow2 (k - 52)"
    unfolding binary64_def Let_def mx by (simp only: if_False)
  also have "\<dots> = x" by (simp only: r) (simp add: e x_def)
  finally show ?thesis unfolding x_def .
qed

lemma round_to_float_of_int:
  assumes "\<bar>m\<bar> < 2 ^ 53"
  shows "round_to_float (of_int m) = Fin (of_int m)"
proof -
  from assms have "real_of_int \<bar>m\<bar> < 2 ^ 53"
    by (simp only: of_int_less_numeral_power_cancel_iff)
  also have "(2 :: real) ^ 53 < 2 ^ 1024" by simp
  finally have "\<bar>real_of_int m\<bar> < 2 ^ 1024" by simp
  with binary64_of_int [OF assms] show ?thesis by (simp add: round_to_float_def)
qed

section \<open>Currency Normalizer: which exception reaches the caller\<close>

lemma py_float_raises_ValueError: "py_float s = Inl e \<Longrightarrow> e = ValueError"
  by (simp add: py_float_def Let_def split: option.splits prod.splits)

lemma clean_str_returns: "\<exists>v. clean_str s = Inr v"
proof (cases "py_float (strip (remove_char (CHR '','') (remove_char (CHR ''$'') s)))")
  case (Inr v)
  then show ?thesis by (simp add: clean_str_def)
next
  case (Inl e)
  then have "e = ValueError" by (rule py_float_raises_ValueError)
  with Inl show ?thesis by (simp add: clean_str_def)
qed

lemma clean_currency_returns:
  assumes "\<not> too_long_int x"
  shows "\<exists>v. clean_currency x = Inr v"
proof (cases x)
  case PyNone
  then show ?thesis by (simp add: clean_currency_def)
next
  case (PyFloat v)
  then show ?thesis by (simp add: clean_currency_def)
next
  case (PyStr s)
  with clean_str_returns [of s] show ?thesis by (simp add: clean_currency_def pd_isna_def)
next
  case (PyInt n)
  with assms obtain s where "int_str n = Inr s"
    by (simp add: too_long_int_def int_str_def Let_def)
  with PyInt clean_str_returns [of s] show ?thesis
    by (simp add: clean_currency_def pd_isna_def)
qed

lemma clean_currency_parse_failure:
  assumes "py_float (strip (remove_char (CHR '','') (remove_char (CHR ''$'') s))) = Inl e"
  shows "clean_currency (PyStr s) = Inr NaN"
proof -
  from assms have "e = ValueError" by (rule py_float_raises_ValueError)
  with assms show ?thesis by (simp add: clean_currency_def clean_str_def pd_isna_def)
qed

lemmas str_defs = lower_def lower_char_def uppercase_def lowercase_def remove_char_def
  strip_def strip_chars_def whitespace_def float_whitespace_def is_digit_def digit_val_def
  digits_val_def

lemmas float_defs = py_float_def split_sign_def parse_inf_or_nan_def parse_exponent_def
  scale10_def parse_decimal_def

lemma round_to_float_1234567: "round_to_float 1234567 = Fin 1234567"
  using round_to_float_of_int [of 1234567] by simp

lemma clean_str_1234567: "clean_str ''1234567'' = Inr (Fin 1234567)"
  by (simp add: clean_str_def str_defs float_defs round_to_float_1234567)

lemma clean_currency_example_dollars:
  "clean_currency (PyStr ''$1,234,567'') = Inr (Fin 1234567)"
  by (simp add: clean_currency_def clean_str_def pd_isna_def str_defs float_defs
        round_to_float_1234567)

lemma clean_currency_example_abc: "clean_currency (PyStr ''abc'') = Inr NaN"
  by (simp add: clean_currency_def clean_str_def pd_isna_def str_defs float_defs)

lemma nat_digits_1234567: "nat_digits 1234567 = ''1234567''"
  by (simp add: nat_digits.simps)

lemma clean_currency_example_int: "clean_currency (PyInt 1234567) = Inr (Fin 1234567)"
  by (simp add: clean_currency_def pd_isna_def int_str_def nat_digits_1234567
        clean_str_1234567)

lemma nat_digits_times_10:
  assumes "0 < n"
  shows "nat_digits (10 * n) = nat_digits n @ ''0''"
proof -
  from assms have "\<not> 10 * n < 10" by simp
  then have "nat_digits (10 * n)
             = nat_digits (10 * n div 10) @ [''0123456789'' ! (10 * n mod 10)]"
    by (subst nat_digits.simps) (simp only: if_False)
  then show ?thesis by simp
qed

lemma length_nat_digits_power: "length (nat_digits (10 ^ k)) = k + 1"
proof (induction k)
  case 0
  show ?case by (simp add: nat_digits.simps)
next
  case (Suc k)
  have "nat_digits (10 ^ Suc k) = nat_digits (10 ^ k) @ ''0''"
    using nat_digits_times_10 [of "10 ^ k"] by simp
  with Suc show ?case by simp
qed

lemma too_long_int_power:
  assumes "4300 \<le> k"
  shows "too_long_int (PyInt (10 ^ k))"
proof -
  have "nat \<bar>10 ^ k :: int\<bar> = 10 ^ k" by (simp add: nat_power_eq)
  then have d: "length (nat_digits (nat \<bar>10 ^ k :: int\<bar>)) = k + 1"
    by (simp only: length_nat_digits_power)
  from assms have "4300 < k + 1" by simp
  then show ?thesis unfolding too_long_int_def by (simp only: pyval.case d)
qed

lemma clean_currency_too_long_int:
  assumes "too_long_int (PyInt n)"
  shows "clean_currency (PyInt n) = Inl ValueError"
  using assms by (simp add: clean_currency_def pd_isna_def int_str_def too_long_int_def Let_def)

text \<open>
  Claim C8, as amended. For every scalar \<open>x\<close> other than an integer of more than 4300
  decimal digits, the call \<open>clean_currency x\<close> returns a value (no exception reaches the
  caller); a missing input (\<open>None\<close> or \<open>nan\<close>) gives the missing marker \<open>nan\<close>; when
  \<open>float\<close> fails on the string left after removing \<open>$\<close>, commas and surrounding
  whitespace, the result is the missing marker; \<open>clean_currency("$1,234,567")\<close> is
  \<open>1234567.0\<close> and \<open>clean_currency("abc")\<close> is missing.
\<close>

theorem clean_currency_returns_unless_long_int:
  "(\<not> too_long_int x \<longrightarrow> (\<exists>v. clean_currency x = Inr v))
   \<and> clean_currency PyNone = Inr NaN
   \<and> clean_currency (PyFloat NaN) = Inr NaN
   \<and> (py_float (strip (remove_char (CHR '','') (remove_char (CHR ''$'') s))) = Inl e
        \<longrightarrow> clean_currency (PyStr s) = Inr NaN)
   \<and> clean_currency (PyStr ''$1,234,567'') = Inr (Fin 1234567)
   \<and> clean_currency (PyStr ''abc'') = Inr NaN"
proof (intro conjI impI)
  show "clean_currency PyNone = Inr NaN" by (simp add: clean_currency_def pd_isna_def)
  show "clean_currency (PyFloat NaN) = Inr NaN" by (simp add: clean_currency_def pd_isna_def)
  show "clean_currency (PyStr ''$1,234,567'') = Inr (Fin 1234567)"
    by (rule clean_currency_example_dollars)
  show "clean_currency (PyStr ''abc'') = Inr NaN" by (rule clean_currency_example_abc)
next
  assume "\<not> too_long_int x"
  then show "\<exists>v. clean_currency x = Inr v" by (rule clean_currency_returns)
next
  assume "py_float (strip (remove_char (CHR '','') (remove_char (CHR ''$'') s))) = Inl e"
  then show "clean_currency (PyStr s) = Inr NaN" by (rule clean_currency_parse_failure)
qed

theorem clean_currency_returns_unless_long_int_witness:
  "py_float (strip (remove_char (CHR '','') (remove_char (CHR ''$'') ''$12,3x4 ''))) = Inl ValueError
   \<and> clean_currency (PyStr ''$12,3x4 '') = Inr NaN
   \<and> \<not> too_long_int (PyInt 1234567)
   \<and> (\<exists>v. clean_currency (PyInt 1234567) = Inr v)"
proof -
  have h: "py_float (strip (remove_char (CHR '','') (remove_char (CHR ''$'') ''$12,3x4 '')))
           = Inl ValueError"
    by (simp add: str_defs float_defs)
  have small: "\<not> too_long_int (PyInt 1234567)"
    by (simp add: too_long_int_def nat_digits_1234567)
  note inst = clean_currency_returns_unless_long_int [of "PyInt 1234567" "''$12,3x4 ''" ValueError]
  from inst have imp:
    "py_float (strip (remove_char (CHR '','') (remove_char (CHR ''$'') ''$12,3x4 '')))
       = Inl ValueError
     \<longrightarrow> clean_currency (PyStr ''$12,3x4 '') = Inr NaN"
    by (elim conjE)
  from imp h have c: "clean_currency (PyStr ''$12,3x4 '') = Inr NaN" by (rule mp)
  from inst have "\<not> too_long_int (PyInt 1234567) \<longrightarrow> (\<exists>v. clean_currency (PyInt 1234567) = Inr v)"
    by (elim conjE)
  from this small have ex: "\<exists>v. clean_currency (PyInt 1234567) = Inr v" by (rule mp)
  from h c small ex show ?thesis by (intro conjI)
qed

text \<open>
  Claim C8 as stated fails: the integer \<open>10^4300\<close> has 4301 digits, \<open>str\<close> raises
  \<open>ValueError\<close> on it before the \<open>try\<close> block is entered, and the exception reaches the
  caller.
\<close>

theorem clean_currency_long_int_counterexample:
  "clean_currency (PyInt (10 ^ 4300)) = Inl ValueError"
proof (rule clean_currency_too_long_int)
  have "(4300 :: nat) \<le> 4300" by simp
  then show "too_long_int (PyInt (10 ^ 4300))" by (rule too_long_int_power)
qed

section \<open>State Aggregator: sorting and grouping\<close>

lemma argsort_ok_bound: "argsort_ok xs p \<Longrightarrow> i \<in> set p \<Longrightarrow> i < length xs"
proof -
  assume ok: "argsort_ok xs p" and i: "i \<in> set p"
  from ok have "mset p = mset [0..<length xs]" by (simp add: argsort_ok_def)
  then have "set p = set [0..<length xs]" by (rule mset_eq_setD)
  with i show ?thesis by simp
qed

lemma mset_map_nth_perm:
  assumes "mset p = mset [0..<length ys]"
  shows "mset (map ((!) ys) p) = mset ys"
proof -
  have "mset (map ((!) ys) p) = image_mset ((!) ys) (mset p)" by simp
  also have "\<dots> = image_mset ((!) ys) (mset [0..<length ys])" using assms by simp
  also have "\<dots> = mset (map ((!) ys) [0..<length ys])" by simp
  also have "\<dots> = mset ys" by (simp add: map_nth)
  finally show ?thesis .
qed

lemma sort_values_desc_mset:
  assumes "argsort_ok (map total_funding (rev summary)) (argsort (map total_funding (rev summary)))"
  shows "mset (sort_values_desc argsort summary) = mset summary"
proof -
  let ?ys = "rev summary"
  from assms have "mset (argsort (map total_funding ?ys)) = mset [0..<length ?ys]"
    by (simp add: argsort_ok_def)
  then have "mset (map ((!) ?ys) (argsort (map total_funding ?ys))) = mset ?ys"
    by (rule mset_map_nth_perm)
  then show ?thesis by (simp add: sort_values_desc_def Let_def)
qed

lemma sort_values_desc_sorted:
  assumes ok: "argsort_ok (map total_funding (rev summary)) (argsort (map total_funding (rev summary)))"
  shows "sorted_wrt (\<lambda>a b. total_funding b \<le> total_funding a) (sort_values_desc argsort summary)"
proof -
  let ?ys = "rev summary"
  let ?p = "argsort (map total_funding ?ys)"
  let ?L = "map ((!) ?ys) ?p"
  have bound: "\<forall>i \<in> set ?p. i < length ?ys"
    using argsort_ok_bound [OF ok] by simp
  have eq: "map ((!) (map total_funding ?ys)) ?p = map total_funding ?L"
    using bound by (simp add: nth_map)
  from ok have s: "sorted (map ((!) (map total_funding ?ys)) ?p)"
    by (simp add: argsort_ok_def)
  have "sorted (map total_funding ?L)" using s unfolding eq .
  then have "sorted_wrt (\<lambda>a b. total_funding a \<le> total_funding b) ?L"
    by (simp only: sorted_map)
  then have "sorted_wrt (\<lambda>a b. total_funding b \<le> total_funding a) (rev ?L)"
    by (simp add: sorted_wrt_rev)
  then show ?thesis by (simp add: sort_values_desc_def Let_def)
qed

lemma argsort_stable_ok: "argsort_ok xs (argsort_stable xs)"
  by (simp add: argsort_ok_def argsort_stable_def)

lemma set_insert_key: "set (insert_key k xs) = insert k (set xs)"
  by (induction xs) auto

lemma set_foldr_insert_key: "set (foldr insert_key ks []) = set ks"
  by (induction ks) (simp_all add: set_insert_key)

lemma set_group_keys:
  "set (group_keys df state_col) = {k \<in> (\<lambda>r. cell_of r state_col) ` set (rows df). k \<noteq> NA}"
  by (auto simp: group_keys_def set_foldr_insert_key)

lemma get_state_summary_Inr:
  assumes "get_state_summary argsort df state_col amount_col = Inr summary"
  shows "summary = sort_values_desc argsort
           (map (\<lambda>g. state_summary.truncate (agg_group df state_col amount_col g))
              (group_keys df state_col))"
    and "\<not> list_ex (\<lambda>g. list_ex (\<lambda>r. is_str (cell_of r amount_col))
                           (group_rows df state_col g)) (group_keys df state_col)"
  using assms by (simp_all add: get_state_summary_def Let_def split: if_splits)

lemma get_state_summary_rows:
  assumes res: "get_state_summary argsort df state_col amount_col = Inr summary"
    and ok: "\<forall>xs. argsort_ok xs (argsort xs)"
  shows "mset summary =
         mset (map (\<lambda>g. state_summary.truncate (agg_group df state_col amount_col g))
                 (group_keys df state_col))"
proof -
  let ?s = "map (\<lambda>g. state_summary.truncate (agg_group df state_col amount_col g))
              (group_keys df state_col)"
  from ok have "argsort_ok (map total_funding (rev ?s)) (argsort (map total_funding (rev ?s)))"
    by blast
  then have "mset (sort_values_desc argsort ?s) = mset ?s" by (rule sort_values_desc_mset)
  with get_state_summary_Inr(1) [OF res] show ?thesis by simp
qed

lemma agg_group_fields:
  "state (state_summary.truncate (agg_group df sc ac g)) = g"
  "total_funding (state_summary.truncate (agg_group df sc ac g))
     = pd_sum (map (\<lambda>r. cell_of r ac) (group_rows df sc g))"
  "avg_grant_size (state_summary.truncate (agg_group df sc ac g))
     = pd_mean (map (\<lambda>r. cell_of r ac) (group_rows df sc g))"
  "num_grants (state_summary.truncate (agg_group df sc ac g))
     = pd_count (map (\<lambda>r. cell_of r ac) (group_rows df sc g))"
  by (simp_all add: agg_group_def state_summary.truncate_def Let_def)

lemma get_state_summary_sorted:
  assumes res: "get_state_summary argsort df state_col amount_col = Inr summary"
    and ok: "\<forall>xs. argsort_ok xs (argsort xs)"
  shows "sorted_wrt (\<lambda>a b. total_funding b \<le> total_funding a) summary"
proof -
  let ?s = "map (\<lambda>g. state_summary.truncate (agg_group df state_col amount_col g))
              (group_keys df state_col)"
  from ok have "argsort_ok (map total_funding (rev ?s)) (argsort (map total_funding (rev ?s)))"
    by blast
  then have "sorted_wrt (\<lambda>a b. total_funding b \<le> total_funding a) (sort_values_desc argsort ?s)"
    by (rule sort_values_desc_sorted)
  with get_state_summary_Inr(1) [OF res] show ?thesis by simp
qed

lemma get_state_summary_states:
  assumes res: "get_state_summary argsort df state_col amount_col = Inr summary"
    and ok: "\<forall>xs. argsort_ok xs (argsort xs)"
  shows "mset (map state summary) = mset (group_keys df state_col)"
proof -
  have "mset (map state summary) = image_mset state (mset summary)" by simp
  also have "\<dots> = image_mset state (mset (map (\<lambda>g. state_summary.truncate
               (agg_group df state_col amount_col g)) (group_keys df state_col)))"
    using get_state_summary_rows [OF res ok] by simp
  also have "\<dots> = mset (group_keys df state_col)"
    by (simp add: image_mset.compositionality comp_def agg_group_fields)
  finally show ?thesis .
qed

lemma cell_of_Cons_other: "c' \<noteq> c \<Longrightarrow> cell_of ((c, v) # r) c' = cell_of r c'"
  by (simp add: cell_of_def)

lemma replaced_key_column:
  assumes "length rs = length vs" and "sc \<noteq> c"
  shows "map (\<lambda>r. cell_of r sc) (map (\<lambda>(r, v). (c, v) # r) (zip rs vs))
         = map (\<lambda>r. cell_of r sc) rs"
  using assms by (induction rs vs rule: list_induct2) (simp_all add: cell_of_Cons_other)

lemma replaced_group_amounts:
  assumes "length rs = length vs" and "sc \<noteq> c" and "ac \<noteq> c"
  shows "map (\<lambda>r. cell_of r ac)
           (filter (\<lambda>r. cell_of r sc = g) (map (\<lambda>(r, v). (c, v) # r) (zip rs vs)))
         = map (\<lambda>r. cell_of r ac) (filter (\<lambda>r. cell_of r sc = g) rs)"
  using assms by (induction rs vs rule: list_induct2) (simp_all add: cell_of_Cons_other)

lemma replace_cells_group_keys:
  assumes "length vs = length (rows df)" and "sc \<noteq> c"
  shows "group_keys (replace_cells df c vs) sc = group_keys df sc"
  using replaced_key_column [of "rows df" vs sc c] assms
  by (simp add: group_keys_def replace_cells_def)

lemma replace_cells_amounts:
  assumes "length vs = length (rows df)" and "sc \<noteq> c" and "ac \<noteq> c"
  shows "map (\<lambda>r. cell_of r ac) (group_rows (replace_cells df c vs) sc g)
         = map (\<lambda>r. cell_of r ac) (group_rows df sc g)"
  using replaced_group_amounts [of "rows df" vs sc c ac g] assms
  by (simp add: group_rows_def replace_cells_def)

lemma list_ex_amounts:
  "list_ex (\<lambda>r. is_str (cell_of r ac)) rs = list_ex is_str (map (\<lambda>r. cell_of r ac) rs)"
  by (simp add: list_ex_iff)

lemma truncate_agg_group:
  "state_summary.truncate (agg_group df sc ac g)
   = \<lparr>state = g,
      total_funding = pd_sum (map (\<lambda>r. cell_of r ac) (group_rows df sc g)),
      avg_grant_size = pd_mean (map (\<lambda>r. cell_of r ac) (group_rows df sc g)),
      num_grants = pd_count (map (\<lambda>r. cell_of r ac) (group_rows df sc g))\<rparr>"
  by (simp add: agg_group_def state_summary.truncate_def Let_def)

lemma replace_cells_result:
  assumes len: "length vs = length (rows df)" and sc: "sc \<noteq> c" and ac: "ac \<noteq> c"
  shows "get_state_summary argsort (replace_cells df c vs) sc ac
         = get_state_summary argsort df sc ac"
proof -
  have cols: "columns (replace_cells df c vs) = columns df" by (simp add: replace_cells_def)
  note keys = replace_cells_group_keys [OF len sc]
  note am = replace_cells_amounts [OF len sc ac]
  show ?thesis
    unfolding get_state_summary_def Let_def cols keys list_ex_amounts truncate_agg_group am
    by (rule refl)
qed

lemma missing_grant_number:
  assumes "''Grant Number'' \<notin> set (columns df)"
  shows "\<exists>ls. get_state_summary argsort df sc ac = Inl (KeyError ls)"
  using assms by (simp add: get_state_summary_def Let_def)

lemmas agg_defs = get_state_summary_def group_keys_def group_rows_def cell_of_def agg_group_def
  pd_sum_def pd_mean_def pd_count_def is_str_def sort_values_desc_def sort_pair_def
  state_summary.truncate_def

lemma argsort_stable_pair: "argsort_stable [a, b] = (if a \<le> b then [0, 1] else [1, 0])"
  by (simp add: argsort_stable_def upt_rec)

lemma grants_example_summary:
  "get_state_summary argsort_stable grants_example ''State'' ''Awardee Amount''
   = Inr [\<lparr>state = Str ''CA'', total_funding = 15000, avg_grant_size = Some 7500,
            num_grants = 2\<rparr>,
          \<lparr>state = Str ''TX'', total_funding = 0, avg_grant_size = None, num_grants = 0\<rparr>]"
  by (simp add: grants_example_def agg_defs argsort_stable_pair)

lemma aquicksort_pair: "aquicksort [5000, 5000] = [0, 1]"
  by code_simp

lemma tied_grants_summary:
  "get_state_summary aquicksort tied_grants ''State'' ''Awardee Amount''
   = Inr [\<lparr>state = Str ''CA'', total_funding = 5000, avg_grant_size = Some 5000,
            num_grants = 1\<rparr>,
          \<lparr>state = Str ''TX'', total_funding = 5000, avg_grant_size = Some 5000,
            num_grants = 1\<rparr>]"
  by (simp add: tied_grants_def agg_defs aquicksort_pair)

lemma aquicksort_eighteen:
  "aquicksort [1000, 1000, 1000, 1000, 1000, 1000, 1000, 1000, 1000,
               1000, 1000, 1000, 1000, 1000, 1000, 1000, 1000, 1000]
   = [0, 15, 14, 13, 12, 11, 10, 9, 8, 7, 6, 5, 4, 3, 2, 1, 16, 17]"
  by code_simp

lemma argsort_ok_eighteen:
  "argsort_ok [1000, 1000, 1000, 1000, 1000, 1000, 1000, 1000, 1000,
               1000, 1000, 1000, 1000, 1000, 1000, 1000, 1000, 1000]
     [0, 15, 14, 13, 12, 11, 10, 9, 8, 7, 6, 5, 4, 3, 2, 1, 16, 17]"
  by code_simp

lemma eighteen_tied_states_summary:
  "get_state_summary aquicksort eighteen_tied_states ''State'' ''Awardee Amount''
   = Inr (map (\<lambda>st. \<lparr>state = Str st, total_funding = 1000, avg_grant_size = Some 1000,
                         num_grants = 1\<rparr>)
            [''AK'', ''AL'', ''KY'', ''KS'', ''IN'', ''IL'', ''ID'', ''IA'', ''HI'',
             ''GA'', ''FL'', ''DE'', ''CT'', ''CO'', ''CA'', ''AZ'', ''AR'', ''LA''])"
  by code_simp

lemma no_grant_number_example:
  "get_state_summary argsort_stable
     \<lparr>columns = [''State'', ''Awardee Amount''],
      rows = [ [(''State'', Str ''CA''), (''Awardee Amount'', Num 5000)] ]\<rparr>
     ''State'' ''Awardee Amount'' = Inl (KeyError [''Grant Number''])"
  by (simp add: agg_defs)

section \<open>State Aggregator: the claims\<close>

text \<open>
  Claim C1 asks that \<open>num_grants\<close> count every source row of the geography, rows with a
  missing amount included. The source takes \<open>count\<close> of the amount column, which skips
  missing amounts: on the table of the end-to-end scenario the only row of \<open>TX\<close> has a
  missing amount, and the summary row of \<open>TX\<close> has \<open>num_grants = 0\<close> while one source row
  has that geography. The count of \<open>Grant Number\<close>, which the source computes and drops as a
  duplicate, is 1 there.
\<close>

theorem num_grants_skips_missing_amounts:
  "get_state_summary argsort_stable grants_example ''State'' ''Awardee Amount''
     = Inr [\<lparr>state = Str ''CA'', total_funding = 15000, avg_grant_size = Some 7500, num_grants = 2\<rparr>,
            \<lparr>state = Str ''TX'', total_funding = 0, avg_grant_size = None, num_grants = 0\<rparr>]
   \<and> length (filter (\<lambda>r. cell_of r ''State'' = Str ''TX'') (rows grants_example)) = 1
   \<and> grant_count_check (agg_group grants_example ''State'' ''Awardee Amount'' (Str ''TX''))
       = 1"
proof (intro conjI)
  show "get_state_summary argsort_stable grants_example ''State'' ''Awardee Amount''
     = Inr [\<lparr>state = Str ''CA'', total_funding = 15000, avg_grant_size = Some 7500, num_grants = 2\<rparr>,
            \<lparr>state = Str ''TX'', total_funding = 0, avg_grant_size = None, num_grants = 0\<rparr>]"
    by (rule grants_example_summary)
  show "length (filter (\<lambda>r. cell_of r ''State'' = Str ''TX'') (rows grants_example)) = 1"
    by (simp add: grants_example_def cell_of_def)
  show "grant_count_check (agg_group grants_example ''State'' ''Awardee Amount'' (Str ''TX''))
       = 1"
    by (simp add: grants_example_def agg_group_def group_rows_def cell_of_def pd_count_def Let_def)
qed

text \<open>
  Claim C6, as amended. The rows of the summary are in descending order of
  \<open>total_funding\<close>, one row for each group key. The source names no second sort key and
  uses the default sort of \<open>sort_values\<close>, which is not stable: the order of rows with equal
  \<open>total_funding\<close> is the one the sorting permutation happens to give.
\<close>

theorem summary_descending_by_total_funding:
  assumes "get_state_summary argsort df state_col amount_col = Inr summary"
    and "\<forall>xs. argsort_ok xs (argsort xs)"
  shows "sorted_wrt (\<lambda>a b. total_funding b \<le> total_funding a) summary
         \<and> mset (map state summary) = mset (group_keys df state_col)"
  using get_state_summary_sorted [OF assms] get_state_summary_states [OF assms]
  by (rule conjI)

theorem summary_descending_by_total_funding_witness:
  "get_state_summary argsort_stable grants_example ''State'' ''Awardee Amount''
     = Inr [\<lparr>state = Str ''CA'', total_funding = 15000, avg_grant_size = Some 7500, num_grants = 2\<rparr>,
            \<lparr>state = Str ''TX'', total_funding = 0, avg_grant_size = None, num_grants = 0\<rparr>]
   \<and> sorted_wrt (\<lambda>a b. total_funding b \<le> total_funding a)
        [\<lparr>state = Str ''CA'', total_funding = 15000, avg_grant_size = Some 7500, num_grants = 2\<rparr>,
         \<lparr>state = Str ''TX'', total_funding = 0, avg_grant_size = None, num_grants = 0\<rparr>]"
proof -
  have ok: "\<forall>xs. argsort_ok xs (argsort_stable xs)" by (simp add: argsort_stable_ok)
  from summary_descending_by_total_funding [OF grants_example_summary ok]
  have "sorted_wrt (\<lambda>a b. total_funding b \<le> total_funding a)
        [\<lparr>state = Str ''CA'', total_funding = 15000, avg_grant_size = Some 7500, num_grants = 2\<rparr>,
         \<lparr>state = Str ''TX'', total_funding = 0, avg_grant_size = None, num_grants = 0\<rparr>]"
    by (rule conjunct1)
  with grants_example_summary show ?thesis by (rule conjI)
qed

text \<open>
  Claim C6 as stated fails: on eighteen states of equal total, given in ascending order of
  the state code, numpy's quicksort partitions the reversed totals once and exchanges equal
  values; the summary has \<open>KY\<close> in third place and \<open>AR\<close> in the place before the last, so
  the tie is not broken by ascending geography code.
\<close>

theorem tie_order_counterexample:
  "map_sum id (map state)
     (get_state_summary aquicksort eighteen_tied_states ''State'' ''Awardee Amount'')
   = Inr [Str ''AK'', Str ''AL'', Str ''KY'', Str ''KS'', Str ''IN'', Str ''IL'', Str ''ID'',
          Str ''IA'', Str ''HI'', Str ''GA'', Str ''FL'', Str ''DE'', Str ''CT'', Str ''CO'',
          Str ''CA'', Str ''AZ'', Str ''AR'', Str ''LA'']
   \<and> map_sum id (map total_funding)
       (get_state_summary aquicksort eighteen_tied_states ''State'' ''Awardee Amount'')
     = Inr [1000, 1000, 1000, 1000, 1000, 1000, 1000, 1000, 1000,
            1000, 1000, 1000, 1000, 1000, 1000, 1000, 1000, 1000]
   \<and> cell_less (Str ''AR'') (Str ''KY'')"
  by (simp add: eighteen_tied_states_summary)

text \<open>
  Claim C9. A table without the column \<open>Grant Number\<close> makes \<open>get_state_summary\<close> raise
  \<open>KeyError\<close>. When the key and amount columns are other columns, replacing the cells of
  \<open>Grant Number\<close> by any values \<open>gs\<close> leaves the result unchanged: the column does not
  influence the summary.
\<close>

theorem grant_number_required_but_unused:
  "(''Grant Number'' \<notin> set (columns df)
      \<longrightarrow> (\<exists>ls. get_state_summary argsort df state_col amount_col = Inl (KeyError ls)))
   \<and> (length gs = length (rows df') \<and> state_col \<noteq> ''Grant Number''
        \<and> amount_col \<noteq> ''Grant Number''
      \<longrightarrow> get_state_summary argsort (replace_cells df' ''Grant Number'' gs) state_col amount_col
          = get_state_summary argsort df' state_col amount_col)"
proof (intro conjI impI)
  assume "''Grant Number'' \<notin> set (columns df)"
  then show "\<exists>ls. get_state_summary argsort df state_col amount_col = Inl (KeyError ls)"
    by (rule missing_grant_number)
next
  assume "length gs = length (rows df') \<and> state_col \<noteq> ''Grant Number''
        \<and> amount_col \<noteq> ''Grant Number''"
  then show "get_state_summary argsort (replace_cells df' ''Grant Number'' gs) state_col amount_col
          = get_state_summary argsort df' state_col amount_col"
    by (simp add: replace_cells_result)
qed

theorem grant_number_required_but_unused_witness:
  "''Grant Number'' \<notin> set (columns \<lparr>columns = [''State'', ''Awardee Amount''],
        rows = [ [(''State'', Str ''CA''), (''Awardee Amount'', Num 5000)] ]\<rparr>)
   \<and> get_state_summary argsort_stable
        \<lparr>columns = [''State'', ''Awardee Amount''],
         rows = [ [(''State'', Str ''CA''), (''Awardee Amount'', Num 5000)] ]\<rparr>
        ''State'' ''Awardee Amount'' = Inl (KeyError [''Grant Number''])
   \<and> length [NA, Str ''X'', Num 7] = length (rows grants_example)
   \<and> get_state_summary argsort_stable
        (replace_cells grants_example ''Grant Number'' [NA, Str ''X'', Num 7])
        ''State'' ''Awardee Amount''
      = Inr [\<lparr>state = Str ''CA'', total_funding = 15000, avg_grant_size = Some 7500, num_grants = 2\<rparr>,
             \<lparr>state = Str ''TX'', total_funding = 0, avg_grant_size = None, num_grants = 0\<rparr>]"
proof -
  let ?df = "\<lparr>columns = [''State'', ''Awardee Amount''],
        rows = [ [(''State'', Str ''CA''), (''Awardee Amount'', Num 5000)] ]\<rparr>"
  let ?gs = "[NA, Str ''X'', Num 7]"
  note inst = grant_number_required_but_unused
    [of ?df argsort_stable "''State''" "''Awardee Amount''" ?gs grants_example]
  have h1: "''Grant Number'' \<notin> set (columns ?df)" by simp
  have h2: "length ?gs = length (rows grants_example)" by (simp add: grants_example_def)
  from inst h1 have "\<exists>ls. get_state_summary argsort_stable ?df ''State'' ''Awardee Amount''
                      = Inl (KeyError ls)"
    by simp
  then have c1: "get_state_summary argsort_stable ?df ''State'' ''Awardee Amount''
                 = Inl (KeyError [''Grant Number''])"
    by (simp add: no_grant_number_example)
  from inst h2 have "get_state_summary argsort_stable
        (replace_cells grants_example ''Grant Number'' ?gs) ''State'' ''Awardee Amount''
      = get_state_summary argsort_stable grants_example ''State'' ''Awardee Amount''"
    by simp
  then have c2: "get_state_summary argsort_stable
        (replace_cells grants_example ''Grant Number'' ?gs) ''State'' ''Awardee Amount''
      = Inr [\<lparr>state = Str ''CA'', total_funding = 15000, avg_grant_size = Some 7500, num_grants = 2\<rparr>,
             \<lparr>state = Str ''TX'', total_funding = 0, avg_grant_size = None, num_grants = 0\<rparr>]"
    by (simp only: grants_example_summary)
  from h1 c1 h2 c2 show ?thesis by (intro conjI)
qed

section \<open>Dataset Merger: left join\<close>

lemma filter_distinct_key:
  "distinct (map f xs) \<Longrightarrow> length (filter (\<lambda>x. f x = k) xs) \<le> 1"
proof (induction xs)
  case Nil
  show ?case by simp
next
  case (Cons x xs)
  show ?case
  proof (cases "f x = k")
    case True
    with Cons.prems have "k \<notin> f ` set xs" by auto
    then have "filter (\<lambda>x. f x = k) xs = []" by (auto simp: filter_empty_conv)
    with True show ?thesis by simp
  next
    case False
    with Cons show ?thesis by simp
  qed
qed

lemma find_filter: "find P xs = (case filter P xs of [] \<Rightarrow> None | x # _ \<Rightarrow> Some x)"
  by (induction xs) simp_all

lemma single_match_block:
  assumes "length (filter P xs) \<le> 1"
  shows "(case filter P xs of [] \<Rightarrow> [f None] | ms \<Rightarrow> map (\<lambda>r. f (Some r)) ms) = [f (find P xs)]"
proof (cases "filter P xs")
  case Nil
  then show ?thesis by (simp add: find_filter)
next
  case (Cons m ms)
  with assms have "ms = []" by simp
  with Cons show ?thesis by (simp add: find_filter)
qed

lemma merge_left_Inr:
  assumes "merge_left left right on = Inr m"
  shows "columns m = map (left_label right on) (columns left)
                     @ map (right_label left) (right_columns right on)"
    and "rows m = concat (map (\<lambda>l. case matches right on l of
                                      [] \<Rightarrow> [join_rows left right on l None]
                                    | ms \<Rightarrow> map (\<lambda>r. join_rows left right on l (Some r)) ms)
                            (rows left))"
    and "distinct (map (left_label right on) (columns left))"
    and "on \<in> set (columns left)" and "on \<in> set (columns right)"
  using assms by (auto simp: merge_left_def Let_def split: if_splits)

lemma merge_left_rows_unique_keys:
  assumes m: "merge_left left right on = Inr m"
    and d: "distinct (map (\<lambda>r. cell_of r on) (rows right))"
  shows "rows m = map (\<lambda>l. join_rows left right on l
                          (find (\<lambda>r. cell_of r on = cell_of l on) (rows right))) (rows left)"
proof -
  have block: "(case matches right on l of
                  [] \<Rightarrow> [join_rows left right on l None]
                | ms \<Rightarrow> map (\<lambda>r. join_rows left right on l (Some r)) ms)
               = [join_rows left right on l
                    (find (\<lambda>r. cell_of r on = cell_of l on) (rows right))]" for l
    unfolding matches_def
    by (rule single_match_block) (rule filter_distinct_key [OF d])
  have "rows m = concat (map (\<lambda>l. [join_rows left right on l
                    (find (\<lambda>r. cell_of r on = cell_of l on) (rows right))]) (rows left))"
    unfolding merge_left_Inr(2) [OF m] block by (rule refl)
  also have "\<dots> = map (\<lambda>l. join_rows left right on l
                    (find (\<lambda>r. cell_of r on = cell_of l on) (rows right))) (rows left)"
    by (induction "rows left") simp_all
  finally show ?thesis .
qed

lemma map_of_labelled:
  assumes "inj_on f (set xs)" and "c \<in> set xs"
  shows "map_of (map (\<lambda>c. (f c, g c)) xs @ ys) (f c) = Some (g c)"
  using assms
proof (induction xs)
  case Nil
  then show ?case by simp
next
  case (Cons x xs)
  then show ?case by (cases "c = x") (auto simp: inj_on_def)
qed

lemma join_rows_left_cell:
  assumes "distinct (map (left_label right on) (columns left))" and "c \<in> set (columns left)"
  shows "cell_of (join_rows left right on l ropt) (left_label right on c) = cell_of l c"
proof -
  from assms(1) have "inj_on (left_label right on) (set (columns left))"
    by (simp add: distinct_map)
  then have eq: "map_of (join_rows left right on l ropt) (left_label right on c)
                 = Some (cell_of l c)"
    unfolding join_rows_def using assms(2) by (rule map_of_labelled)
  show ?thesis by (subst cell_of_def) (simp add: eq)
qed

lemma join_rows_unmatched:
  "map snd (drop (length (columns left)) (join_rows left right on l None))
   = replicate (length (right_columns right on)) NA"
  by (simp add: join_rows_def map_replicate_const comp_def)

lemma find_None_key:
  "k \<notin> (\<lambda>r. cell_of r on) ` set rs \<Longrightarrow> find (\<lambda>r. cell_of r on = k) rs = None"
  by (auto simp: find_None_iff)

lemma merge_health_and_funding_Inr:
  assumes "merge_health_and_funding funding health on = Inr (merged, out)"
  shows "merge_left funding health on = Inr merged"
    and "''infant_mortality_rate'' \<in> set (columns merged)"
  using assms
  by (auto simp: merge_health_and_funding_def get_column_def Let_def
           split: sum.splits if_splits)

lemma indicator_not_suffixed_x: "''infant_mortality_rate'' \<noteq> c @ ''_x''"
proof
  assume "''infant_mortality_rate'' = c @ ''_x''"
  then have "last ''infant_mortality_rate'' = last (c @ ''_x'')" by simp
  then show False by simp
qed

lemma indicator_not_suffixed_y: "''infant_mortality_rate'' \<noteq> c @ ''_y''"
proof
  assume "''infant_mortality_rate'' = c @ ''_y''"
  then have "last ''infant_mortality_rate'' = last (c @ ''_y'')" by simp
  then show False by simp
qed

lemma indicator_absent_after_merge:
  assumes m: "merge_left funding health on = Inr m"
    and h: "''infant_mortality_rate'' \<notin> set (columns health)"
    and f: "''infant_mortality_rate'' \<notin> set (columns funding)"
  shows "''infant_mortality_rate'' \<notin> set (columns m)"
proof
  assume "''infant_mortality_rate'' \<in> set (columns m)"
  then consider c where "c \<in> set (columns funding)"
        "''infant_mortality_rate'' = left_label health on c"
    | c where "c \<in> set (right_columns health on)"
        "''infant_mortality_rate'' = right_label funding c"
    unfolding merge_left_Inr(1) [OF m] by auto
  then show False
  proof cases
    case 1
    with f show False
      by (auto simp: left_label_def indicator_not_suffixed_x split: if_splits)
  next
    case 2
    with h show False
      by (auto simp: right_label_def right_columns_def indicator_not_suffixed_y split: if_splits)
  qed
qed

lemma merge_without_indicator:
  assumes h: "''infant_mortality_rate'' \<notin> set (columns health)"
    and f: "''infant_mortality_rate'' \<notin> set (columns funding)"
  shows "\<exists>e. merge_health_and_funding funding health on = Inl e"
    and "merge_left funding health on = Inr m \<Longrightarrow>
         merge_health_and_funding funding health on = Inl (KeyError [''infant_mortality_rate''])"
proof -
  show k: "merge_health_and_funding funding health on = Inl (KeyError [''infant_mortality_rate''])"
    if m: "merge_left funding health on = Inr m" for m
    using indicator_absent_after_merge [OF m h f] m
    by (simp add: merge_health_and_funding_def get_column_def)
  show "\<exists>e. merge_health_and_funding funding health on = Inl e"
  proof (cases "merge_left funding health on")
    case (Inl e)
    then show ?thesis by (simp add: merge_health_and_funding_def)
  next
    case (Inr m)
    from k [OF this] show ?thesis by blast
  qed
qed

lemmas merge_defs = merge_health_and_funding_def merge_left_def get_column_def left_label_def
  right_label_def right_columns_def join_rows_def matches_def cell_of_def

lemma merge_no_indicator_example: "merge_health_and_funding funding_example health_no_indicator ''state''
   = Inl (KeyError [''infant_mortality_rate''])"
  by (simp add: funding_example_def health_no_indicator_def merge_defs)

lemma merge_duplicate_key_example:
  "merge_health_and_funding funding_example health_duplicate_key ''state''
   = Inr (\<lparr>columns = [''state'', ''total_funding'', ''avg_grant_size'', ''num_grants'',
                       ''infant_mortality_rate''],
             rows = [ [(''state'', Str ''CA''), (''total_funding'', Num 15000),
                      (''avg_grant_size'', Num 7500), (''num_grants'', Num 2),
                      (''infant_mortality_rate'', Num (51 / 10))],
                     [(''state'', Str ''CA''), (''total_funding'', Num 15000),
                      (''avg_grant_size'', Num 7500), (''num_grants'', Num 2),
                      (''infant_mortality_rate'', Num (62 / 10))],
                     [(''state'', Str ''TX''), (''total_funding'', Num 0),
                      (''avg_grant_size'', NA), (''num_grants'', Num 0),
                      (''infant_mortality_rate'', NA)] ]\<rparr>,
            [Merging ''state'', MergedInfo 3 5, UnmatchedWarning 1])"
  by (simp add: funding_example_def health_duplicate_key_def merge_defs)

lemma merge_empty_health_example: "merge_health_and_funding funding_example health_empty ''state''
   = Inr (\<lparr>columns = [''state'', ''total_funding'', ''avg_grant_size'', ''num_grants'',
                      ''infant_mortality_rate''],
            rows = [ [(''state'', Str ''CA''), (''total_funding'', Num 15000),
               (''avg_grant_size'', Num 7500), (''num_grants'', Num 2), (''infant_mortality_rate'', NA)],
              [(''state'', Str ''TX''), (''total_funding'', Num 0),
               (''avg_grant_size'', NA), (''num_grants'', Num 0), (''infant_mortality_rate'', NA)] ]\<rparr>,
           [Merging ''state'', MergedInfo 2 5, UnmatchedWarning 2])"
  by (simp add: funding_example_def health_empty_def merge_defs)

lemma merge_no_columns_example: "merge_health_and_funding funding_example \<lparr>columns = [], rows = []\<rparr> ''state''
   = Inl (KeyError [''state''])"
  by (simp add: funding_example_def merge_defs)

lemma merge_example:
  "merge_health_and_funding funding_example health_example ''state''
   = Inr (\<lparr>columns = [''state'', ''total_funding'', ''avg_grant_size'', ''num_grants'',
                      ''infant_mortality_rate''],
            rows = [ [(''state'', Str ''CA''), (''total_funding'', Num 15000),
                     (''avg_grant_size'', Num 7500), (''num_grants'', Num 2),
                     (''infant_mortality_rate'', Num (51 / 10))],
                    [(''state'', Str ''TX''), (''total_funding'', Num 0),
                     (''avg_grant_size'', NA), (''num_grants'', Num 0),
                     (''infant_mortality_rate'', NA)] ]\<rparr>,
          [Merging ''state'', MergedInfo 2 5, UnmatchedWarning 1])"
  by (simp add: funding_example_def health_example_def merge_defs)

lemma merge_left_no_indicator_example:
  "merge_left funding_example health_no_indicator ''state''
   = Inr \<lparr>columns = [''state'', ''total_funding'', ''avg_grant_size'', ''num_grants'',
                     ''prenatal_care_pct''],
           rows = [ [(''state'', Str ''CA''), (''total_funding'', Num 15000),
                    (''avg_grant_size'', Num 7500), (''num_grants'', Num 2),
                    (''prenatal_care_pct'', Num 80)],
                   [(''state'', Str ''TX''), (''total_funding'', Num 0),
                    (''avg_grant_size'', NA), (''num_grants'', Num 0),
                    (''prenatal_care_pct'', NA)] ]\<rparr>"
  by (simp add: funding_example_def health_no_indicator_def merge_defs)

section \<open>Dataset Merger: the claims\<close>

text \<open>
  Claim C2, as the source has it. When \<open>merge_health_and_funding\<close> returns and no two rows
  of the right table have the same key, the merged table has exactly one row for each left
  row, in the order of the left table: the left row joined with the right row of equal key,
  if there is one. So the row counts agree, every left cell is kept under its (possibly
  suffixed) label, and the right cells of a row without a match are missing. A right table
  without rows is a special case.
\<close>

theorem left_join_keeps_left_rows:
  assumes "merge_health_and_funding funding health on = Inr (merged, out)"
    and "distinct (map (\<lambda>r. cell_of r on) (rows health))"
  shows "length (rows merged) = length (rows funding)
         \<and> rows merged = map (\<lambda>l. join_rows funding health on l
                                  (find (\<lambda>r. cell_of r on = cell_of l on) (rows health)))
                            (rows funding)
         \<and> (\<forall>i < length (rows funding).
              (\<forall>c \<in> set (columns funding).
                 cell_of (rows merged ! i) (left_label health on c)
                 = cell_of (rows funding ! i) c)
              \<and> (cell_of (rows funding ! i) on \<notin> (\<lambda>r. cell_of r on) ` set (rows health)
                 \<longrightarrow> map snd (drop (length (columns funding)) (rows merged ! i))
                     = replicate (length (right_columns health on)) NA))"
proof -
  note m = merge_health_and_funding_Inr(1) [OF assms(1)]
  note rws = merge_left_rows_unique_keys [OF m assms(2)]
  from rws have len: "length (rows merged) = length (rows funding)" by simp
  have cells: "\<forall>i < length (rows funding).
              (\<forall>c \<in> set (columns funding).
                 cell_of (rows merged ! i) (left_label health on c)
                 = cell_of (rows funding ! i) c)
              \<and> (cell_of (rows funding ! i) on \<notin> (\<lambda>r. cell_of r on) ` set (rows health)
                 \<longrightarrow> map snd (drop (length (columns funding)) (rows merged ! i))
                     = replicate (length (right_columns health on)) NA)"
  proof (intro allI impI conjI ballI)
    fix i c
    assume i: "i < length (rows funding)" and c: "c \<in> set (columns funding)"
    from i rws have "rows merged ! i = join_rows funding health on (rows funding ! i)
        (find (\<lambda>r. cell_of r on = cell_of (rows funding ! i) on) (rows health))"
      by simp
    then show "cell_of (rows merged ! i) (left_label health on c) = cell_of (rows funding ! i) c"
      by (simp add: join_rows_left_cell [OF merge_left_Inr(3) [OF m] c])
  next
    fix i
    assume i: "i < length (rows funding)"
      and k: "cell_of (rows funding ! i) on \<notin> (\<lambda>r. cell_of r on) ` set (rows health)"
    from i rws have "rows merged ! i = join_rows funding health on (rows funding ! i)
        (find (\<lambda>r. cell_of r on = cell_of (rows funding ! i) on) (rows health))"
      by simp
    with find_None_key [OF k]
    have "rows merged ! i = join_rows funding health on (rows funding ! i) None" by simp
    then show "map snd (drop (length (columns funding)) (rows merged ! i))
               = replicate (length (right_columns health on)) NA"
      by (simp only: join_rows_unmatched)
  qed
  from len rws cells show ?thesis by (intro conjI)
qed

theorem left_join_keeps_left_rows_witness:
  "merge_health_and_funding funding_example health_example ''state''
     = Inr (\<lparr>columns = [''state'', ''total_funding'', ''avg_grant_size'', ''num_grants'',
                      ''infant_mortality_rate''],
            rows = [ [(''state'', Str ''CA''), (''total_funding'', Num 15000),
                     (''avg_grant_size'', Num 7500), (''num_grants'', Num 2),
                     (''infant_mortality_rate'', Num (51 / 10))],
                    [(''state'', Str ''TX''), (''total_funding'', Num 0),
                     (''avg_grant_size'', NA), (''num_grants'', Num 0),
                     (''infant_mortality_rate'', NA)] ]\<rparr>,
            [Merging ''state'', MergedInfo 2 5, UnmatchedWarning 1])
   \<and> distinct (map (\<lambda>r. cell_of r ''state'') (rows health_example))
   \<and> length (rows \<lparr>columns = [''state'', ''total_funding'', ''avg_grant_size'', ''num_grants'',
                      ''infant_mortality_rate''],
            rows = [ [(''state'', Str ''CA''), (''total_funding'', Num 15000),
                     (''avg_grant_size'', Num 7500), (''num_grants'', Num 2),
                     (''infant_mortality_rate'', Num (51 / 10))],
                    [(''state'', Str ''TX''), (''total_funding'', Num 0),
                     (''avg_grant_size'', NA), (''num_grants'', Num 0),
                     (''infant_mortality_rate'', NA)] ]\<rparr>)
     = length (rows funding_example)"
proof -
  have d: "distinct (map (\<lambda>r. cell_of r ''state'') (rows health_example))"
    by (simp add: health_example_def)
  from left_join_keeps_left_rows [OF merge_example d]
  have "length (rows \<lparr>columns = [''state'', ''total_funding'', ''avg_grant_size'', ''num_grants'',
                      ''infant_mortality_rate''],
            rows = [ [(''state'', Str ''CA''), (''total_funding'', Num 15000),
                     (''avg_grant_size'', Num 7500), (''num_grants'', Num 2),
                     (''infant_mortality_rate'', Num (51 / 10))],
                    [(''state'', Str ''TX''), (''total_funding'', Num 0),
                     (''avg_grant_size'', NA), (''num_grants'', Num 0),
                     (''infant_mortality_rate'', NA)] ]\<rparr>)
     = length (rows funding_example)"
    by (rule conjunct1)
  with merge_example d show ?thesis by (intro conjI)
qed

text \<open>
  The claim as stated fails for a right table that holds a key twice: the left row of \<open>CA\<close>
  appears twice in the result, which has three rows for two left rows.
\<close>

theorem left_join_duplicate_key_counterexample:
  "merge_health_and_funding funding_example health_duplicate_key ''state''
   = Inr (\<lparr>columns = [''state'', ''total_funding'', ''avg_grant_size'', ''num_grants'',
                       ''infant_mortality_rate''],
             rows = [ [(''state'', Str ''CA''), (''total_funding'', Num 15000),
                      (''avg_grant_size'', Num 7500), (''num_grants'', Num 2),
                      (''infant_mortality_rate'', Num (51 / 10))],
                     [(''state'', Str ''CA''), (''total_funding'', Num 15000),
                      (''avg_grant_size'', Num 7500), (''num_grants'', Num 2),
                      (''infant_mortality_rate'', Num (62 / 10))],
                     [(''state'', Str ''TX''), (''total_funding'', Num 0),
                      (''avg_grant_size'', NA), (''num_grants'', Num 0),
                      (''infant_mortality_rate'', NA)] ]\<rparr>,
            [Merging ''state'', MergedInfo 3 5, UnmatchedWarning 1])
   \<and> length (rows funding_example) = 2"
proof (rule conjI)
  show "merge_health_and_funding funding_example health_duplicate_key ''state''
   = Inr (\<lparr>columns = [''state'', ''total_funding'', ''avg_grant_size'', ''num_grants'',
                       ''infant_mortality_rate''],
             rows = [ [(''state'', Str ''CA''), (''total_funding'', Num 15000),
                      (''avg_grant_size'', Num 7500), (''num_grants'', Num 2),
                      (''infant_mortality_rate'', Num (51 / 10))],
                     [(''state'', Str ''CA''), (''total_funding'', Num 15000),
                      (''avg_grant_size'', Num 7500), (''num_grants'', Num 2),
                      (''infant_mortality_rate'', Num (62 / 10))],
                     [(''state'', Str ''TX''), (''total_funding'', Num 0),
                      (''avg_grant_size'', NA), (''num_grants'', Num 0),
                      (''infant_mortality_rate'', NA)] ]\<rparr>,
            [Merging ''state'', MergedInfo 3 5, UnmatchedWarning 1])"
    by (rule merge_duplicate_key_example)
  show "length (rows funding_example) = 2" by (simp add: funding_example_def)
qed

text \<open>
  Claim C3, as the source has it. When neither table holds the column
  \<open>infant_mortality_rate\<close>, the call raises an exception, and whenever the merge itself
  succeeds that exception is the \<open>KeyError\<close> of the lookup
  \<open>merged['infant_mortality_rate']\<close>. The source has no check of the right table's schema
  and no exception of its own.
\<close>

theorem missing_indicator_raises_KeyError:
  assumes "''infant_mortality_rate'' \<notin> set (columns health)"
    and "''infant_mortality_rate'' \<notin> set (columns funding)"
  shows "(\<exists>e. merge_health_and_funding funding health on = Inl e)
         \<and> (\<forall>m. merge_left funding health on = Inr m
              \<longrightarrow> merge_health_and_funding funding health on
                  = Inl (KeyError [''infant_mortality_rate'']))"
  using merge_without_indicator [OF assms] by blast

theorem missing_indicator_raises_KeyError_witness:
  "''infant_mortality_rate'' \<notin> set (columns health_no_indicator)
   \<and> ''infant_mortality_rate'' \<notin> set (columns funding_example)
   \<and> merge_health_and_funding funding_example health_no_indicator ''state''
     = Inl (KeyError [''infant_mortality_rate''])"
proof -
  have h: "''infant_mortality_rate'' \<notin> set (columns health_no_indicator)"
    by (simp add: health_no_indicator_def)
  have f: "''infant_mortality_rate'' \<notin> set (columns funding_example)"
    by (simp add: funding_example_def)
  from missing_indicator_raises_KeyError [OF h f, of "''state''"]
  have "\<forall>m. merge_left funding_example health_no_indicator ''state'' = Inr m
          \<longrightarrow> merge_health_and_funding funding_example health_no_indicator ''state''
              = Inl (KeyError [''infant_mortality_rate''])"
    by (rule conjunct2)
  with merge_left_no_indicator_example
  have "merge_health_and_funding funding_example health_no_indicator ''state''
        = Inl (KeyError [''infant_mortality_rate''])"
    by blast
  with h f show ?thesis by (intro conjI)
qed

text \<open>
  On a health table without the indicator column the call ends in the \<open>KeyError\<close> of the
  column lookup.
\<close>

theorem missing_indicator_counterexample:
  "''infant_mortality_rate'' \<notin> set (columns health_no_indicator)
   \<and> merge_health_and_funding funding_example health_no_indicator ''state''
     = Inl (KeyError [''infant_mortality_rate''])"
proof (rule conjI)
  show "''infant_mortality_rate'' \<notin> set (columns health_no_indicator)"
    by (simp add: health_no_indicator_def)
  show "merge_health_and_funding funding_example health_no_indicator ''state''
     = Inl (KeyError [''infant_mortality_rate''])"
    by (rule merge_no_indicator_example)
qed

section \<open>Outlier Detector: z-scores in exact arithmetic\<close>

lemma identify_outliers_zscore:
  "identify_outliers fl series ''zscore'' threshold
   = Inr (map (\<lambda>x. greater_than (np_abs (np_divide fl (nan_sub fl x (series_mean fl series))
                                                       (series_std fl series))) threshold) series)"
  by (simp add: identify_outliers_def Let_def comp_def)

lemma pairwise_sum_short:
  "length a < 8 \<Longrightarrow> pairwise_sum fl a = foldl (\<lambda>res x. fl (res + x)) 0 a"
  by (subst pairwise_sum.simps) (simp add: Let_def)

lemma foldl_no_rounding: "foldl (\<lambda>a x. no_rounding (a + x)) acc v = acc + sum_list v"
  by (induction v arbitrary: acc) (simp_all add: no_rounding_def)

lemma sum_list_map2_add:
  "length xs = length ys
   \<Longrightarrow> sum_list (map2 (\<lambda>a x. no_rounding (a + x)) xs ys) = sum_list xs + sum_list ys"
  by (induction xs ys rule: list_induct2) (simp_all add: no_rounding_def)

lemma add_blocks_exact:
  assumes "length r = 8" and "add_blocks no_rounding r xs = (r', rest)"
  shows "length r' = 8 \<and> sum_list r' + sum_list rest = sum_list r + sum_list xs"
  using assms
proof (induction "length xs" arbitrary: r xs rule: less_induct)
  case less
  show ?case
  proof (cases "length xs < 8")
    case True
    with less.prems(2) have "r' = r" "rest = xs" by (simp_all add: add_blocks.simps)
    with less.prems(1) show ?thesis by simp
  next
    case False
    let ?r = "map2 (\<lambda>a x. no_rounding (a + x)) r (take 8 xs)"
    from False less.prems(1) have len: "length r = length (take 8 xs)" by simp
    with less.prems(1) have l8: "length ?r = 8" by simp
    from False less.prems(2) have ab: "add_blocks no_rounding ?r (drop 8 xs) = (r', rest)"
      by (subst (asm) add_blocks.simps) simp
    from False have "length (drop 8 xs) < length xs" by simp
    from less.hyps [OF this l8 ab]
    have ih: "length r' = 8"
      "sum_list r' + sum_list rest = sum_list ?r + sum_list (drop 8 xs)"
      by simp_all
    have "sum_list ?r = sum_list r + sum_list (take 8 xs)"
      using len by (rule sum_list_map2_add)
    moreover have "sum_list (take 8 xs) + sum_list (drop 8 xs) = sum_list xs"
      by (simp flip: sum_list_append)
    ultimately show ?thesis using ih by simp
  qed
qed

lemma sum_list_eight:
  assumes "length r = 8"
  shows "r ! 0 + r ! 1 + (r ! 2 + r ! 3) + (r ! 4 + r ! 5 + (r ! 6 + r ! 7)) = sum_list (r :: real list)"
proof -
  from assms obtain a b c d e f g h where "r = [a, b, c, d, e, f, g, h]"
    by (auto simp: eval_nat_numeral length_Suc_conv)
  then show ?thesis by simp
qed

lemma block_sum_exact:
  assumes "8 \<le> length a"
  shows "block_sum no_rounding a = sum_list a"
proof -
  obtain r rest where ab: "add_blocks no_rounding (take 8 a) (drop 8 a) = (r, rest)"
    by (cases "add_blocks no_rounding (take 8 a) (drop 8 a)")
  from assms have "length (take 8 a) = 8" by simp
  from add_blocks_exact [OF this ab]
  have l: "length r = 8"
    and sm: "sum_list r + sum_list rest = sum_list (take 8 a) + sum_list (drop 8 a)"
    by simp_all
  have "sum_list (take 8 a) + sum_list (drop 8 a) = sum_list a"
    by (simp flip: sum_list_append)
  with sm have "sum_list r + sum_list rest = sum_list a" by simp
  with sum_list_eight [OF l] show ?thesis
    by (simp add: block_sum_def ab foldl_no_rounding) (simp add: no_rounding_def)
qed

lemma pairwise_sum_exact: "pairwise_sum no_rounding a = sum_list a"
proof (induction "length a" arbitrary: a rule: less_induct)
  case less
  show ?case
  proof (cases "length a < 8")
    case True
    then show ?thesis by (simp add: pairwise_sum_short foldl_no_rounding)
  next
    case False
    show ?thesis
    proof (cases "length a \<le> 128")
      case True
      with False have "pairwise_sum no_rounding a = block_sum no_rounding a"
        by (subst pairwise_sum.simps) (simp add: Let_def)
      with False show ?thesis by (simp add: block_sum_exact)
    next
      case big: False
      define n2 where "n2 = length a div 2 - (length a div 2) mod 8"
      from big have n2: "0 < n2" "n2 < length a" unfolding n2_def by arith+
      from big have "pairwise_sum no_rounding a
                     = no_rounding (pairwise_sum no_rounding (take n2 a)
                                    + pairwise_sum no_rounding (drop n2 a))"
        unfolding n2_def by (subst pairwise_sum.simps) (simp add: Let_def)
      moreover from n2 have "pairwise_sum no_rounding (take n2 a) = sum_list (take n2 a)"
        by (intro less.hyps) simp
      moreover from n2 have "pairwise_sum no_rounding (drop n2 a) = sum_list (drop n2 a)"
        by (intro less.hyps) simp
      moreover have "sum_list (take n2 a) + sum_list (drop n2 a) = sum_list a"
        by (simp flip: sum_list_append)
      ultimately show ?thesis by (simp add: no_rounding_def)
    qed
  qed
qed

lemma sum_list_fill_zero: "sum_list (fill_zero series) = sum_list (dropna series)"
  by (induction series rule: dropna.induct) (simp_all add: fill_zero_def)


lemma series_mean_exact:
  "series_mean no_rounding series
   = (if dropna series = [] then None
      else Some (sum_list (dropna series) / real (length (dropna series))))"
  by (simp add: series_mean_def Let_def pairwise_sum_exact sum_list_fill_zero no_rounding_def)











section \<open>Outlier Detector: a constant series\<close>

lemma dropna_replicate: "dropna (replicate n (Some c)) = replicate n c"
  by (induction n) simp_all

lemma foldl_zeros: "fl 0 = 0 \<Longrightarrow> foldl (\<lambda>a x. fl (a + x)) 0 (replicate n 0) = (0 :: real)"
  by (induction n) simp_all

lemma add_blocks_zeros:
  assumes "fl 0 = 0"
  shows "add_blocks fl (replicate 8 0) (replicate m 0) = (replicate 8 0, replicate (m mod 8) 0)"
proof (induction m rule: less_induct)
  case (less m)
  show ?case
  proof (cases "m < 8")
    case True
    then show ?thesis by (simp add: add_blocks.simps)
  next
    case False
    then have m: "m - 8 < m" "(m - 8) mod 8 = m mod 8" by (simp_all add: le_mod_geq)
    from False have t: "take 8 (replicate m (0 :: real)) = replicate 8 0"
      by (simp add: min_def)
    have z: "map2 (\<lambda>a x. fl (a + x)) (replicate 8 0) (replicate 8 0) = replicate 8 0"
      by (simp add: zip_replicate assms)
    from False have "add_blocks fl (replicate 8 0) (replicate m 0)
                     = add_blocks fl (replicate 8 0) (replicate (m - 8) 0)"
      by (subst add_blocks.simps) (simp add: t z assms)
    with less [OF m(1)] m(2) show ?thesis by simp
  qed
qed

lemma block_sum_zeros:
  assumes "fl 0 = 0" and "8 \<le> n"
  shows "block_sum fl (replicate n 0) = 0"
proof -
  from assms(2) show ?thesis
    by (simp add: block_sum_def min_def add_blocks_zeros [of fl, OF assms(1)] assms(1)
          foldl_zeros [of fl, OF assms(1)])
qed

lemma pairwise_sum_zeros:
  assumes "fl 0 = 0"
  shows "pairwise_sum fl (replicate n 0) = 0"
proof (induction n rule: less_induct)
  case (less n)
  show ?case
  proof (cases "n < 8")
    case True
    then show ?thesis by (simp add: pairwise_sum_short foldl_zeros [of fl, OF assms])
  next
    case False
    show ?thesis
    proof (cases "n \<le> 128")
      case True
      with False have "pairwise_sum fl (replicate n 0) = block_sum fl (replicate n 0)"
        by (subst pairwise_sum.simps) (simp add: Let_def)
      with False show ?thesis by (simp add: block_sum_zeros [of fl, OF assms])
    next
      case big: False
      define n2 where "n2 = n div 2 - (n div 2) mod 8"
      from big have n2: "0 < n2" "n2 < n" unfolding n2_def by arith+
      from big have "pairwise_sum fl (replicate n 0)
                     = fl (pairwise_sum fl (take n2 (replicate n 0))
                           + pairwise_sum fl (drop n2 (replicate n 0)))"
        unfolding n2_def by (subst pairwise_sum.simps) (simp add: Let_def)
      moreover from n2 have "take n2 (replicate n (0 :: real)) = replicate n2 0"
        by (simp add: min_def)
      moreover have "drop n2 (replicate n (0 :: real)) = replicate (n - n2) 0" by simp
      moreover from n2 have "pairwise_sum fl (replicate n2 0) = 0" by (intro less) simp
      moreover from n2 have "pairwise_sum fl (replicate (n - n2) 0) = 0" by (intro less) simp
      ultimately show ?thesis by (simp add: assms)
    qed
  qed
qed

lemma fill_zero_replicate: "fill_zero (replicate n (Some c)) = replicate n c"
  by (simp add: fill_zero_def)

lemma constant_series_std:
  assumes fl0: "fl 0 = 0" and mean: "series_mean fl (replicate n (Some c)) = Some c"
  shows "series_std fl (replicate n (Some c)) = None
         \<or> series_std fl (replicate n (Some c)) = Some 0"
proof (cases "n \<le> 1")
  case True
  then show ?thesis by (simp add: series_std_def dropna_replicate)
next
  case False
  then have "0 < n" by simp
  with mean have avg: "fl (pairwise_sum fl (replicate n c) / real n) = c"
    by (simp add: series_mean_def dropna_replicate fill_zero_replicate)
  have "map (\<lambda>x. case x of None \<Rightarrow> 0 | Some y \<Rightarrow> fl ((fl (c - y))\<^sup>2)) (replicate n (Some c))
        = replicate n 0"
    by (simp add: fl0)
  with False avg fl0 have "series_std fl (replicate n (Some c)) = Some 0"
    by (simp add: series_std_def dropna_replicate fill_zero_replicate Let_def
          pairwise_sum_zeros)
  then show ?thesis by blast
qed

lemma constant_series_flags:
  assumes fl0: "fl 0 = 0" and mean: "series_mean fl (replicate n (Some c)) = Some c"
  shows "identify_outliers fl (replicate n (Some c)) ''zscore'' threshold
         = Inr (replicate n False)"
proof -
  have dev: "nan_sub fl (Some c) (series_mean fl (replicate n (Some c))) = Some 0"
    by (simp add: mean nan_sub_def fl0)
  from constant_series_std [OF fl0 mean]
  have "np_divide fl (Some 0) (series_std fl (replicate n (Some c))) = NaN"
    by (auto simp: np_divide_def)
  with dev show ?thesis by (simp add: identify_outliers_zscore)
qed

lemma constant_series_mean_exact:
  assumes "0 < n"
  shows "series_mean no_rounding (replicate n (Some c)) = Some c"
  using assms by (simp add: series_mean_exact dropna_replicate sum_list_replicate)

section \<open>Outlier Detector: binary64 on three equal entries\<close>

lemma b64_zero: "binary64 0 = 0"
  by (simp add: binary64_def)

lemma b64_tenth: "binary64 tenth = tenth"
proof -
  have "binary64 tenth = of_int 7205759403792794 * pow2 (- 4 - 52)"
  proof (rule binary64_eval)
    show "pow2 (- 4) \<le> \<bar>tenth\<bar>" by (simp add: pow2_def tenth_def)
    show "\<bar>tenth\<bar> < pow2 (- 4 + 1)" by (simp add: pow2_def tenth_def)
    have "tenth / pow2 (- 4 - 52) = of_int 7205759403792794" by (simp add: pow2_def tenth_def)
    then show "rne (tenth / pow2 (- 4 - 52)) = 7205759403792794" by (simp only: rne_of_int)
  qed simp
  then show ?thesis by (simp add: pow2_def tenth_def)
qed

lemma b64_two_tenths: "binary64 (tenth + tenth) = 2 * tenth"
proof -
  have "binary64 (tenth + tenth) = of_int 7205759403792794 * pow2 (- 3 - 52)"
  proof (rule binary64_eval)
    show "pow2 (- 3) \<le> \<bar>tenth + tenth\<bar>" by (simp add: pow2_def tenth_def)
    show "\<bar>tenth + tenth\<bar> < pow2 (- 3 + 1)" by (simp add: pow2_def tenth_def)
    have "(tenth + tenth) / pow2 (- 3 - 52) = of_int 7205759403792794"
      by (simp add: pow2_def tenth_def)
    then show "rne ((tenth + tenth) / pow2 (- 3 - 52)) = 7205759403792794"
      by (simp only: rne_of_int)
  qed simp
  then show ?thesis by (simp add: pow2_def tenth_def)
qed

lemma b64_three_tenths: "binary64 (2 * tenth + tenth) = 5404319552844596 / 2 ^ 54"
proof -
  have "binary64 (2 * tenth + tenth) = of_int 5404319552844596 * pow2 (- 2 - 52)"
  proof (rule binary64_eval)
    show "pow2 (- 2) \<le> \<bar>2 * tenth + tenth\<bar>" by (simp add: pow2_def tenth_def)
    show "\<bar>2 * tenth + tenth\<bar> < pow2 (- 2 + 1)" by (simp add: pow2_def tenth_def)
    have "(2 * tenth + tenth) / pow2 (- 2 - 52) = of_int 5404319552844595 + 1 / 2"
      by (simp add: pow2_def tenth_def)
    then show "rne ((2 * tenth + tenth) / pow2 (- 2 - 52)) = 5404319552844596"
      by (simp only: rne_tie) simp
  qed simp
  then show ?thesis by (simp add: pow2_def)
qed

lemma pairwise_sum_three: "pairwise_sum fl [a, b, c] = fl (fl (fl (0 + a) + b) + c)"
  by (simp add: pairwise_sum_short)

lemma pairwise_sum_tenths: "pairwise_sum binary64 [tenth, tenth, tenth] = 5404319552844596 / 2 ^ 54"
proof -
  have z: "0 + tenth = tenth" by simp
  have t: "tenth + tenth + tenth = 2 * tenth + tenth" by simp
  have two: "binary64 (tenth + tenth) = tenth + tenth" using b64_two_tenths by simp
  show ?thesis
    unfolding pairwise_sum_three z b64_tenth two t by (rule b64_three_tenths)
qed

lemma b64_mean_tenths: "binary64 (5404319552844596 / 2 ^ 54 / 3) = 7205759403792795 / 2 ^ 56"
proof -
  have e: "binary64 (5404319552844596 / 2 ^ 54 / 3) = of_int 7205759403792795 * pow2 (- 4 - 52)"
  proof (rule binary64_eval)
    show "pow2 (- 4) \<le> \<bar>5404319552844596 / 2 ^ 54 / 3 :: real\<bar>" by (simp add: pow2_def)
    show "\<bar>5404319552844596 / 2 ^ 54 / 3 :: real\<bar> < pow2 (- 4 + 1)" by (simp add: pow2_def)
    show "rne (5404319552844596 / 2 ^ 54 / 3 / pow2 (- 4 - 52)) = 7205759403792795"
      by (rule rne_nearest) (simp_all add: pow2_def)
  qed simp
  have v: "of_int 7205759403792795 * pow2 (- 4 - 52) = (7205759403792795 / 2 ^ 56 :: real)"
    by (simp add: pow2_def)
  from e v show ?thesis by (rule trans)
qed

lemma series_mean_three:
  "series_mean fl [Some a, Some b, Some c] = Some (fl (pairwise_sum fl [a, b, c] / 3))"
  by (simp add: series_mean_def fill_zero_def)

lemma series_mean_tenths:
  "series_mean binary64 [Some tenth, Some tenth, Some tenth] = Some (7205759403792795 / 2 ^ 56)"
  unfolding series_mean_three pairwise_sum_tenths b64_mean_tenths by (rule refl)

lemma b64_dev: "binary64 (tenth - 7205759403792795 / 2 ^ 56) = - (1 / 2 ^ 56)"
proof -
  have a: "binary64 (- (1 / 2 ^ 56)) = - (1 / 2 ^ 56)"
    by (rule binary64_exact [where k = "- 56" and n = "- (2 ^ 52)"]) (simp_all add: pow2_def)
  have b: "tenth - 7205759403792795 / 2 ^ 56 = - (1 / 2 ^ 56)" by (simp add: tenth_def)
  show ?thesis unfolding b by (rule a)
qed

lemma b64_dev': "binary64 (7205759403792795 / 2 ^ 56 - tenth) = 1 / 2 ^ 56"
proof -
  have a: "binary64 (1 / 2 ^ 56) = 1 / 2 ^ 56"
    by (rule binary64_exact [where k = "- 56" and n = "2 ^ 52"]) (simp_all add: pow2_def)
  have b: "7205759403792795 / 2 ^ 56 - tenth = 1 / 2 ^ 56" by (simp add: tenth_def)
  show ?thesis unfolding b by (rule a)
qed

lemma b64_sq: "binary64 ((1 / 2 ^ 56)\<^sup>2) = 1 / 2 ^ 112"
proof -
  have a: "binary64 (1 / 2 ^ 112) = 1 / 2 ^ 112"
    by (rule binary64_exact [where k = "- 112" and n = "2 ^ 52"]) (simp_all add: pow2_def)
  have b: "((1 :: real) / 2 ^ 56)\<^sup>2 = 1 / 2 ^ 112" by (simp add: power2_eq_square)
  show ?thesis unfolding b by (rule a)
qed

lemma b64_sq1: "binary64 (0 + 1 / 2 ^ 112) = 1 / 2 ^ 112"
proof -
  have a: "binary64 (1 / 2 ^ 112) = 1 / 2 ^ 112"
    by (rule binary64_exact [where k = "- 112" and n = "2 ^ 52"]) (simp_all add: pow2_def)
  have b: "(0 :: real) + 1 / 2 ^ 112 = 1 / 2 ^ 112" by simp
  show ?thesis unfolding b by (rule a)
qed

lemma b64_sq2: "binary64 (1 / 2 ^ 112 + 1 / 2 ^ 112) = 1 / 2 ^ 111"
proof -
  have a: "binary64 (1 / 2 ^ 111) = 1 / 2 ^ 111"
    by (rule binary64_exact [where k = "- 111" and n = "2 ^ 52"]) (simp_all add: pow2_def)
  have b: "(1 :: real) / 2 ^ 112 + 1 / 2 ^ 112 = 1 / 2 ^ 111" by simp
  show ?thesis unfolding b by (rule a)
qed

lemma b64_sq3: "binary64 (1 / 2 ^ 111 + 1 / 2 ^ 112) = 3 / 2 ^ 112"
proof -
  have a: "binary64 (3 / 2 ^ 112) = 3 / 2 ^ 112"
    by (rule binary64_exact [where k = "- 111" and n = "3 * 2 ^ 51"]) (simp_all add: pow2_def)
  have b: "(1 :: real) / 2 ^ 111 + 1 / 2 ^ 112 = 3 / 2 ^ 112" by simp
  show ?thesis unfolding b by (rule a)
qed

lemma b64_var: "binary64 (3 / 2 ^ 112 / 2) = 3 / 2 ^ 113"
proof -
  have a: "binary64 (3 / 2 ^ 113) = 3 / 2 ^ 113"
    by (rule binary64_exact [where k = "- 112" and n = "3 * 2 ^ 51"]) (simp_all add: pow2_def)
  have b: "(3 :: real) / 2 ^ 112 / 2 = 3 / 2 ^ 113" by simp
  show ?thesis unfolding b by (rule a)
qed

lemma sqrt_var_bounds:
  "(5515760546423086 - 1 / 2) / 2 ^ 108 < sqrt (3 / 2 ^ 113)"
  "sqrt (3 / 2 ^ 113) < (5515760546423086 + 1 / 2) / 2 ^ 108"
proof -
  show "(5515760546423086 - 1 / 2) / 2 ^ 108 < sqrt (3 / 2 ^ 113)"
    by (rule real_less_rsqrt) (simp add: power2_eq_square)
  show "sqrt (3 / 2 ^ 113) < (5515760546423086 + 1 / 2) / 2 ^ 108"
    by (rule real_less_lsqrt) (simp_all add: power2_eq_square)
qed

lemma b64_std: "binary64 (sqrt (3 / 2 ^ 113)) = 5515760546423086 / 2 ^ 108"
proof -
  have lo: "1 / 2 ^ 56 \<le> sqrt (3 / 2 ^ 113)"
    by (rule real_le_rsqrt) (simp add: power2_eq_square)
  have hi: "sqrt (3 / 2 ^ 113) < 1 / 2 ^ 55"
    by (rule real_less_lsqrt) (simp_all add: power2_eq_square)
  have e: "binary64 (sqrt (3 / 2 ^ 113)) = of_int 5515760546423086 * pow2 (- 56 - 52)"
  proof (rule binary64_eval)
    from lo show "pow2 (- 56) \<le> \<bar>sqrt (3 / 2 ^ 113)\<bar>" by (simp add: pow2_def)
    from hi show "\<bar>sqrt (3 / 2 ^ 113)\<bar> < pow2 (- 56 + 1)" by (simp add: pow2_def)
    show "rne (sqrt (3 / 2 ^ 113) / pow2 (- 56 - 52)) = 5515760546423086"
    proof (rule rne_nearest)
      from sqrt_var_bounds(1)
      show "real_of_int 5515760546423086 - 1 / 2 < sqrt (3 / 2 ^ 113) / pow2 (- 56 - 52)"
        by (simp add: pow2_def field_simps)
      from sqrt_var_bounds(2)
      show "sqrt (3 / 2 ^ 113) / pow2 (- 56 - 52) < real_of_int 5515760546423086 + 1 / 2"
        by (simp add: pow2_def field_simps)
    qed
  qed simp
  have v: "of_int 5515760546423086 * pow2 (- 56 - 52) = (5515760546423086 / 2 ^ 108 :: real)"
    by (simp add: pow2_def)
  from e v show ?thesis by (rule trans)
qed

lemma b64_zscore:
  "binary64 (- (1 / 2 ^ 56) / (5515760546423086 / 2 ^ 108)) = - (7354347395230783 / 2 ^ 53)"
proof -
  have e: "binary64 (- (1 / 2 ^ 56) / (5515760546423086 / 2 ^ 108))
        = of_int (- 7354347395230783) * pow2 (- 1 - 52)"
  proof (rule binary64_eval)
    show "pow2 (- 1) \<le> \<bar>- (1 / 2 ^ 56) / (5515760546423086 / 2 ^ 108) :: real\<bar>"
      by (simp add: pow2_def)
    show "\<bar>- (1 / 2 ^ 56) / (5515760546423086 / 2 ^ 108) :: real\<bar> < pow2 (- 1 + 1)"
      by (simp add: pow2_def)
    show "rne (- (1 / 2 ^ 56) / (5515760546423086 / 2 ^ 108) / pow2 (- 1 - 52))
          = - 7354347395230783"
      by (rule rne_nearest) (simp_all add: pow2_def)
  qed simp
  have v: "of_int (- 7354347395230783) * pow2 (- 1 - 52) = (- (7354347395230783 / 2 ^ 53) :: real)"
    by (simp add: pow2_def)
  from e v show ?thesis by (rule trans)
qed

lemma series_std_three:
  "series_std fl [Some a, Some b, Some c]
   = Some (fl (sqrt (fl (pairwise_sum fl (map (\<lambda>x. fl ((fl (fl (pairwise_sum fl [a, b, c] / 3) - x))\<^sup>2))
                                        [a, b, c]) / 2))))"
  by (simp add: series_std_def fill_zero_def Let_def)

lemma series_std_tenths:
  "series_std binary64 [Some tenth, Some tenth, Some tenth] = Some (5515760546423086 / 2 ^ 108)"
proof -
  have "series_std binary64 [Some tenth, Some tenth, Some tenth]
        = Some (binary64 (sqrt (binary64 (pairwise_sum binary64
            [1 / 2 ^ 112, 1 / 2 ^ 112, 1 / 2 ^ 112] / 2))))"
    by (simp only: series_std_three pairwise_sum_tenths b64_mean_tenths list.map b64_dev' b64_sq)
  also have "\<dots> = Some (5515760546423086 / 2 ^ 108)"
    by (simp only: pairwise_sum_three b64_sq1 b64_sq2 b64_sq3 b64_var b64_std)
  finally show ?thesis .
qed

lemma zscore_of_tenth:
  "greater_than (np_abs (np_divide binary64
      (nan_sub binary64 (Some tenth) (Some (7205759403792795 / 2 ^ 56)))
      (Some (5515760546423086 / 2 ^ 108)))) (1 / 2)"
proof -
  have d: "nan_sub binary64 (Some tenth) (Some (7205759403792795 / 2 ^ 56))
           = Some (- (1 / 2 ^ 56))"
    unfolding nan_sub_def prod.case option.case b64_dev by (rule refl)
  have nz: "(5515760546423086 / 2 ^ 108 :: real) \<noteq> 0" by simp
  have q: "np_divide binary64 (Some (- (1 / 2 ^ 56))) (Some (5515760546423086 / 2 ^ 108))
           = Fin (- (7354347395230783 / 2 ^ 53))"
    unfolding np_divide_def prod.case option.case using nz
    by (simp only: if_False b64_zscore)
  show ?thesis unfolding d q by simp
qed

lemma constant_tenths_flagged:
  "identify_outliers binary64 [Some tenth, Some tenth, Some tenth] ''zscore'' (1 / 2)
   = Inr [True, True, True]"
  unfolding identify_outliers_zscore series_mean_tenths series_std_tenths list.map
  using zscore_of_tenth by simp





lemma b64_one_tenth: "binary64 (1 / 10) = tenth"
proof -
  have e: "binary64 (1 / 10) = of_int 7205759403792794 * pow2 (- 4 - 52)"
  proof (rule binary64_eval)
    show "pow2 (- 4) \<le> \<bar>1 / 10 :: real\<bar>" by (simp add: pow2_def)
    show "\<bar>1 / 10 :: real\<bar> < pow2 (- 4 + 1)" by (simp add: pow2_def)
    show "rne (1 / 10 / pow2 (- 4 - 52)) = 7205759403792794"
      by (rule rne_nearest) (simp_all add: pow2_def)
  qed simp
  have v: "of_int 7205759403792794 * pow2 (- 4 - 52) = tenth" by (simp add: pow2_def tenth_def)
  from e v show ?thesis by (rule trans)
qed

lemma pairwise_sum_eight:
  "pairwise_sum fl [a0, a1, a2, a3, a4, a5, a6, a7]
   = fl (fl (fl (a0 + a1) + fl (a2 + a3)) + fl (fl (a4 + a5) + fl (a6 + a7)))"
  by (subst pairwise_sum.simps) (simp add: Let_def block_sum_def add_blocks.simps)

lemma b64_four_tenths: "binary64 (2 * tenth + 2 * tenth) = 4 * tenth"
proof -
  have "binary64 (2 * tenth + 2 * tenth) = 2 * tenth + 2 * tenth"
    by (rule binary64_exact [where k = "- 2" and n = 7205759403792794])
       (simp_all add: pow2_def tenth_def)
  then show ?thesis by simp
qed

lemma b64_eight_tenths: "binary64 (4 * tenth + 4 * tenth) = 8 * tenth"
proof -
  have "binary64 (4 * tenth + 4 * tenth) = 4 * tenth + 4 * tenth"
    by (rule binary64_exact [where k = "- 1" and n = 7205759403792794])
       (simp_all add: pow2_def tenth_def)
  then show ?thesis by simp
qed

lemma series_mean_eight_tenths:
  "series_mean binary64 [Some tenth, Some tenth, Some tenth, Some tenth,
                         Some tenth, Some tenth, Some tenth, Some tenth] = Some tenth"
proof -
  have "series_mean binary64 [Some tenth, Some tenth, Some tenth, Some tenth,
                              Some tenth, Some tenth, Some tenth, Some tenth]
        = Some (binary64 (pairwise_sum binary64
                  [tenth, tenth, tenth, tenth, tenth, tenth, tenth, tenth] / 8))"
    by (simp add: series_mean_def fill_zero_def)
  also have "pairwise_sum binary64 [tenth, tenth, tenth, tenth, tenth, tenth, tenth, tenth]
             = 8 * tenth"
    by (simp only: pairwise_sum_eight b64_two_tenths b64_four_tenths b64_eight_tenths)
  also have "8 * tenth / 8 = tenth" by simp
  also have "binary64 tenth = tenth" by (rule b64_tenth)
  finally show ?thesis .
qed

section \<open>Outlier Detector: the claims\<close>




text \<open>
  Claim C10, as amended. On a series of \<open>n\<close> entries that all equal \<open>c\<close>, method
  \<open>zscore\<close> raises no exception and returns \<open>n\<close> flags, under any rounding; it flags
  no entry whenever \<open>n\<close> is positive and the computed mean is \<open>c\<close> itself (with a rounding
  that leaves 0 unchanged): every deviation is then 0, the standard deviation is 0 or
  undefined, and the quotient is \<open>NaN\<close>, which compares false with every threshold. In
  exact arithmetic the computed mean is always \<open>c\<close>.
\<close>

theorem constant_series_not_flagged:
  "(\<exists>flags. identify_outliers fl (replicate n (Some c)) ''zscore'' threshold = Inr flags
       \<and> length flags = n)
   \<and> (0 < n \<and> fl 0 = 0 \<and> series_mean fl (replicate n (Some c)) = Some c
      \<longrightarrow> identify_outliers fl (replicate n (Some c)) ''zscore'' threshold
          = Inr (replicate n False))
   \<and> (0 < n
      \<longrightarrow> identify_outliers no_rounding (replicate n (Some c)) ''zscore'' threshold
          = Inr (replicate n False))"
proof (intro conjI impI)
  show "\<exists>flags. identify_outliers fl (replicate n (Some c)) ''zscore'' threshold = Inr flags
          \<and> length flags = n"
    by (simp add: identify_outliers_zscore)
next
  assume "0 < n \<and> fl 0 = 0 \<and> series_mean fl (replicate n (Some c)) = Some c"
  then show "identify_outliers fl (replicate n (Some c)) ''zscore'' threshold
             = Inr (replicate n False)"
    by (simp add: constant_series_flags)
next
  assume n: "0 < n"
  have "no_rounding 0 = 0" by (simp add: no_rounding_def)
  from constant_series_flags [OF this constant_series_mean_exact [OF n]]
  show "identify_outliers no_rounding (replicate n (Some c)) ''zscore'' threshold
        = Inr (replicate n False)" .
qed

theorem constant_series_not_flagged_witness:
  "(0 :: nat) < 8 \<and> binary64 0 = 0
   \<and> series_mean binary64 (replicate 8 (Some tenth)) = Some tenth
   \<and> identify_outliers binary64 (replicate 8 (Some tenth)) ''zscore'' (1 / 2)
     = Inr (replicate 8 False)"
proof -
  have r: "replicate 8 (Some tenth)
           = [Some tenth, Some tenth, Some tenth, Some tenth,
              Some tenth, Some tenth, Some tenth, Some tenth]"
    by (simp add: eval_nat_numeral)
  have h1: "(0 :: nat) < 8" by simp
  have h2: "binary64 0 = 0" by (rule b64_zero)
  have h3: "series_mean binary64 (replicate 8 (Some tenth)) = Some tenth"
    unfolding r by (rule series_mean_eight_tenths)
  from constant_series_not_flagged [of binary64 8 tenth "1 / 2"] h1 h2 h3
  have "identify_outliers binary64 (replicate 8 (Some tenth)) ''zscore'' (1 / 2)
        = Inr (replicate 8 False)"
    by blast
  with h1 h2 h3 show ?thesis by (intro conjI)
qed

text \<open>
  In binary64 the claim as stated fails on three entries \<open>0.1\<close>: the sum of the three,
  taken one after the other, rounds to \<open>0.30000000000000004\<close>, the computed mean is
  \<open>0.1 + 2^-56\<close>, the deviations and the standard deviation are not zero, every z-score is
  about \<open>0.816\<close>, and with threshold \<open>0.5\<close> all three entries are flagged.
\<close>

theorem constant_series_flagged_counterexample:
  "binary64 (1 / 10) = tenth
   \<and> identify_outliers binary64 [Some tenth, Some tenth, Some tenth] ''zscore'' (1 / 2)
     = Inr [True, True, True]"
  using b64_one_tenth constant_tenths_flagged by (rule conjI)

end
